theory Spec2Isabelle
  imports Main "HOL-Library.Word"
begin

section \<open>The C glue layer of gotk3: glib.go.h and gtk.go.h\<close>

text \<open>
  The two headers hold static C functions that a Go binding calls through cgo. Each is a
  few statements long: a call of a GLib, GObject or GTK function or macro, or a direct
  load or store through a pointer argument. The embedding keeps the three things a
  statement of such a function can do apart:
  \<^item> a call of the native library, whose code is not part of the repository: the library
    is a parameter \<open>L\<close> (a record of functions on the memory), and every call is also
    written to a trace with the arguments it was given;
  \<^item> a load or a store through a pointer, on typed memory of blocks (arrays); an access
    through \<open>NULL\<close> or outside a block is undefined behaviour in C and is the outcome
    \<open>Undefined\<close> here;
  \<^item> returning a value.
\<close>

subsection \<open>Values\<close>

text \<open>
  C \<open>int\<close>, \<open>gint\<close>, \<open>gboolean\<close> and the GTK enumerations are 32-bit words, read as
  signed with \<open>sint\<close>. \<open>GType\<close> is \<open>gsize\<close>, whose width is the platform's; no function
  here computes with it, so it is a natural number, \<open>0\<close> being \<open>G_TYPE_INVALID\<close>.
\<close>

type_synonym gint = "32 word"
type_synonym GType = nat

text \<open>
  A pointer is \<open>NULL\<close>, a block of typed memory with an element offset, or the address of
  a string literal of the program text. Each C type has its own numbering of blocks: the
  static type of a pointer says which memory it is read in.
\<close>

datatype ptr = NULL | Ptr nat int | StrLit string

text \<open>
  \<open>p[i]\<close> is \<open>*(p + i)\<close>. Only a pointer into a block can be indexed; arithmetic on
  \<open>NULL\<close> or on a literal's address leaves a pointer that no typed access accepts.
\<close>

fun ptr_add :: "ptr \<Rightarrow> int \<Rightarrow> ptr" where
  "ptr_add (Ptr b off) i = Ptr b (off + i)"
| "ptr_add NULL i = NULL"
| "ptr_add (StrLit s) i = StrLit s"

text \<open>The arguments after the fixed ones of a variadic native function.\<close>

datatype vararg = VPtr ptr | VInt gint

text \<open>
  \<open>GError\<close>: the source reads the field \<open>message\<close> only; the other fields of the
  native structure are the record's extension.
\<close>

record GError =
  message :: ptr

text \<open>The one function pointer of the program text: \<open>extern void goMarshal(...)\<close>.\<close>

datatype GClosureMarshal = goMarshal

text \<open>The two types \<open>g_new0\<close> is instantiated with.\<close>

datatype ctype = TYPE_GValue | TYPE_GType

text \<open>The \<open>G_VARIANT_TYPE_*\<close> macros the accessors of glib.go.h name.\<close>

datatype gvariant_macro =
    G_VARIANT_TYPE_BOOLEAN | G_VARIANT_TYPE_BYTE | G_VARIANT_TYPE_INT16
  | G_VARIANT_TYPE_UINT16 | G_VARIANT_TYPE_INT32 | G_VARIANT_TYPE_UINT32
  | G_VARIANT_TYPE_INT64 | G_VARIANT_TYPE_UINT64 | G_VARIANT_TYPE_HANDLE
  | G_VARIANT_TYPE_DOUBLE | G_VARIANT_TYPE_STRING | G_VARIANT_TYPE_OBJECT_PATH
  | G_VARIANT_TYPE_SIGNATURE | G_VARIANT_TYPE_VARIANT | G_VARIANT_TYPE_ANY
  | G_VARIANT_TYPE_BASIC | G_VARIANT_TYPE_MAYBE | G_VARIANT_TYPE_ARRAY
  | G_VARIANT_TYPE_TUPLE | G_VARIANT_TYPE_UNIT | G_VARIANT_TYPE_DICT_ENTRY
  | G_VARIANT_TYPE_DICTIONARY | G_VARIANT_TYPE_STRING_ARRAY
  | G_VARIANT_TYPE_OBJECT_PATH_ARRAY | G_VARIANT_TYPE_BYTESTRING
  | G_VARIANT_TYPE_BYTESTRING_ARRAY | G_VARIANT_TYPE_VARDICT

subsection \<open>Memory\<close>

text \<open>
  Typed memory: for each C type the source loads or stores, a list of blocks, each a list
  of elements. \<open>'v\<close> is the native \<open>GValue\<close> structure, whose layout the headers of the
  library define, not this repository; all it needs here is its all-zero value \<open>0\<close>.
  \<open>'n\<close> is whatever else the native library keeps (objects, widgets, closures).
\<close>

record ('v, 'n) heap =
  gvalues :: "'v list list"
  gtypes :: "GType list list"
  gpointers :: "ptr list list"
  gerrors :: "GError list list"
  gchars :: "char list list"
  toolkit :: 'n

text \<open>A pointer is in bounds when it names an element of an existing block.\<close>

fun in_bounds :: "'a list list \<Rightarrow> ptr \<Rightarrow> bool" where
  "in_bounds bs (Ptr b off) = (b < length bs \<and> 0 \<le> off \<and> nat off < length (bs ! b))"
| "in_bounds bs NULL = False"
| "in_bounds bs (StrLit s) = False"

text \<open>
  The load \<open>*p\<close> and the store \<open>*p = v\<close>; \<open>None\<close> where C leaves them undefined. The
  condition is no test the program makes: it says where the access has a meaning.
\<close>

fun rd :: "'a list list \<Rightarrow> ptr \<Rightarrow> 'a option" where
  "rd bs (Ptr b off) = (if in_bounds bs (Ptr b off) then Some (bs ! b ! nat off) else None)"
| "rd bs NULL = None"
| "rd bs (StrLit s) = None"

fun wr :: "'a list list \<Rightarrow> ptr \<Rightarrow> 'a \<Rightarrow> 'a list list option" where
  "wr bs (Ptr b off) v =
     (if in_bounds bs (Ptr b off) then Some (bs[b := (bs ! b)[nat off := v]]) else None)"
| "wr bs NULL v = None"
| "wr bs (StrLit s) v = None"

text \<open>
  The C string at a \<open>char *\<close>: the characters up to the first NUL; undefined when the
  block ends before one. A literal's address holds the literal.
\<close>

fun cstring :: "char list list \<Rightarrow> ptr \<Rightarrow> string option" where
  "cstring bs (StrLit s) = Some s"
| "cstring bs NULL = None"
| "cstring bs (Ptr b off) =
     (if in_bounds bs (Ptr b off) \<and> CHR 0x00 \<in> set (drop (nat off) (bs ! b))
      then Some (takeWhile (\<lambda>c. c \<noteq> CHR 0x00) (drop (nat off) (bs ! b)))
      else None)"

subsection \<open>The native library and the trace of its calls\<close>

text \<open>
  One constructor for each function or macro of the native library that the source
  names, with the arguments of the call in the order the source passes them. The variadic
  functions carry their trailing arguments as a list.
\<close>

datatype native_call =
    Call_G_TYPE_FROM_INSTANCE ptr
  | Call_g_object_set ptr ptr "vararg list"
  | Call_g_new0 ctype gint
  | Call_g_value_init ptr GType
  | Call_G_IS_VALUE ptr
  | Call_G_VALUE_TYPE ptr
  | Call_G_TYPE_FUNDAMENTAL GType
  | Call_g_closure_new_simple nat ptr
  | Call_g_closure_set_marshal ptr GClosureMarshal
  | Use_G_VARIANT_TYPE gvariant_macro
  | Call_gtk_tree_view_column_new_with_attributes ptr ptr "vararg list"
  | Call_gtk_message_dialog_new ptr gint gint gint ptr "vararg list"
  | Call_G_OBJECT_GET_CLASS ptr
  | Call_G_OBJECT_CLASS_NAME ptr

text \<open>
  The native library, a parameter of every function that calls it. A native function
  maps the memory to its result and the memory it leaves, or to \<open>None\<close> when it does not
  return (the library aborts the process, or crashes). \<open>variant_type\<close> is the table of the
  \<open>G_VARIANT_TYPE_*\<close> macros, each a constant address, and \<open>sizeof_GClosure\<close> the constant
  \<open>sizeof(GClosure)\<close>.
\<close>

record ('v, 'n) native =
  G_TYPE_FROM_INSTANCE :: "ptr \<Rightarrow> ('v, 'n) heap \<Rightarrow> (GType \<times> ('v, 'n) heap) option"
  g_object_set :: "ptr \<Rightarrow> ptr \<Rightarrow> vararg list \<Rightarrow> ('v, 'n) heap \<Rightarrow> (unit \<times> ('v, 'n) heap) option"
  g_new0 :: "ctype \<Rightarrow> gint \<Rightarrow> ('v, 'n) heap \<Rightarrow> (ptr \<times> ('v, 'n) heap) option"
  g_value_init :: "ptr \<Rightarrow> GType \<Rightarrow> ('v, 'n) heap \<Rightarrow> (ptr \<times> ('v, 'n) heap) option"
  G_IS_VALUE :: "ptr \<Rightarrow> ('v, 'n) heap \<Rightarrow> (gint \<times> ('v, 'n) heap) option"
  G_VALUE_TYPE :: "ptr \<Rightarrow> ('v, 'n) heap \<Rightarrow> (GType \<times> ('v, 'n) heap) option"
  G_TYPE_FUNDAMENTAL :: "GType \<Rightarrow> ('v, 'n) heap \<Rightarrow> (GType \<times> ('v, 'n) heap) option"
  sizeof_GClosure :: nat
  g_closure_new_simple :: "nat \<Rightarrow> ptr \<Rightarrow> ('v, 'n) heap \<Rightarrow> (ptr \<times> ('v, 'n) heap) option"
  g_closure_set_marshal ::
    "ptr \<Rightarrow> GClosureMarshal \<Rightarrow> ('v, 'n) heap \<Rightarrow> (unit \<times> ('v, 'n) heap) option"
  variant_type :: "gvariant_macro \<Rightarrow> ptr"
  gtk_tree_view_column_new_with_attributes ::
    "ptr \<Rightarrow> ptr \<Rightarrow> vararg list \<Rightarrow> ('v, 'n) heap \<Rightarrow> (ptr \<times> ('v, 'n) heap) option"
  gtk_message_dialog_new ::
    "ptr \<Rightarrow> gint \<Rightarrow> gint \<Rightarrow> gint \<Rightarrow> ptr \<Rightarrow> vararg list \<Rightarrow> ('v, 'n) heap
      \<Rightarrow> (ptr \<times> ('v, 'n) heap) option"
  G_OBJECT_GET_CLASS :: "ptr \<Rightarrow> ('v, 'n) heap \<Rightarrow> (ptr \<times> ('v, 'n) heap) option"
  G_OBJECT_CLASS_NAME :: "ptr \<Rightarrow> ('v, 'n) heap \<Rightarrow> (ptr \<times> ('v, 'n) heap) option"

subsection \<open>Running a function of the source\<close>

text \<open>
  The machine: the memory and the trace of native calls made so far. The native library
  sees the memory only. A function of the source maps the machine to an outcome and the
  machine it leaves:
  \<^item> \<open>Ret v\<close>: it returned \<open>v\<close>;
  \<^item> \<open>Undefined a\<close>: it made the load or store \<open>a\<close> of its own through a pointer that
    names no element, which C leaves undefined;
  \<^item> \<open>Abort\<close>: a native call it made did not return.
\<close>

record ('v, 'n) machine =
  mem :: "('v, 'n) heap"
  trace :: "native_call list"

datatype access = Load ptr | Store ptr

datatype 'a outcome = Ret 'a | Undefined access | Abort

type_synonym ('a, 'v, 'n) shim = "('v, 'n) machine \<Rightarrow> 'a outcome \<times> ('v, 'n) machine"

definition ret :: "'a \<Rightarrow> ('a, 'v, 'n) shim" where
  "ret a s = (Ret a, s)"

definition bnd :: "('a, 'v, 'n) shim \<Rightarrow> ('a \<Rightarrow> ('b, 'v, 'n) shim) \<Rightarrow> ('b, 'v, 'n) shim" where
  "bnd m f s =
     (case m s of
        (Ret a, s') \<Rightarrow> f a s'
      | (Undefined a, s') \<Rightarrow> (Undefined a, s')
      | (Abort, s') \<Rightarrow> (Abort, s'))"

text \<open>A native call: written to the trace, then run on the memory.\<close>

definition native ::
  "native_call \<Rightarrow> (('v, 'n) heap \<Rightarrow> ('a \<times> ('v, 'n) heap) option) \<Rightarrow> ('a, 'v, 'n) shim" where
  "native c f s =
     (case f (mem s) of
        None \<Rightarrow> (Abort, s\<lparr>trace := trace s @ [c]\<rparr>)
      | Some (r, h) \<Rightarrow> (Ret r, \<lparr>mem = h, trace = trace s @ [c]\<rparr>))"

text \<open>The loads and stores the source performs itself.\<close>

definition load_GValue :: "ptr \<Rightarrow> ('v, 'v, 'n) shim" where
  "load_GValue p s =
     (case rd (gvalues (mem s)) p of None \<Rightarrow> (Undefined (Load p), s) | Some v \<Rightarrow> (Ret v, s))"

definition store_GValue :: "ptr \<Rightarrow> 'v \<Rightarrow> (unit, 'v, 'n) shim" where
  "store_GValue p v s =
     (case wr (gvalues (mem s)) p v of
        None \<Rightarrow> (Undefined (Store p), s)
      | Some bs \<Rightarrow> (Ret (), s\<lparr>mem := (mem s)\<lparr>gvalues := bs\<rparr>\<rparr>))"

definition store_GType :: "ptr \<Rightarrow> GType \<Rightarrow> (unit, 'v, 'n) shim" where
  "store_GType p t s =
     (case wr (gtypes (mem s)) p t of
        None \<Rightarrow> (Undefined (Store p), s)
      | Some bs \<Rightarrow> (Ret (), s\<lparr>mem := (mem s)\<lparr>gtypes := bs\<rparr>\<rparr>))"

definition load_gpointer :: "ptr \<Rightarrow> (ptr, 'v, 'n) shim" where
  "load_gpointer p s =
     (case rd (gpointers (mem s)) p of None \<Rightarrow> (Undefined (Load p), s) | Some q \<Rightarrow> (Ret q, s))"

definition load_GError :: "ptr \<Rightarrow> (GError, 'v, 'n) shim" where
  "load_GError p s =
     (case rd (gerrors (mem s)) p of None \<Rightarrow> (Undefined (Load p), s) | Some e \<Rightarrow> (Ret e, s))"

subsection \<open>glib.go.h\<close>

text \<open>
  The functions follow the source statement by statement. A name of the source that
  starts with an underscore has \<open>shim\<close> before it here. A macro that expands to an
  expression of the native headers is run like a native call.
\<close>

text \<open>\<^verbatim>\<open>return (G_TYPE_FROM_INSTANCE(instance));\<close>\<close>

definition shim_g_type_from_instance :: "('v, 'n) native \<Rightarrow> ptr \<Rightarrow> (GType, 'v, 'n) shim" where
  "shim_g_type_from_instance L instance =
     native (Call_G_TYPE_FROM_INSTANCE instance) (G_TYPE_FROM_INSTANCE L instance)"

text \<open>\<^verbatim>\<open>g_object_set(object, property_name, *(gpointer **)val, NULL);\<close>\<close>

definition shim_g_object_set_one ::
  "('v, 'n) native \<Rightarrow> ptr \<Rightarrow> ptr \<Rightarrow> ptr \<Rightarrow> (unit, 'v, 'n) shim" where
  "shim_g_object_set_one L object property_name val =
     bnd (load_gpointer val) (\<lambda>v.
       native (Call_g_object_set object property_name [VPtr v, VPtr NULL])
         (g_object_set L object property_name [VPtr v, VPtr NULL]))"

text \<open>\<^verbatim>\<open>valv = g_new0(GValue, n); return (valv);\<close>\<close>

definition alloc_gvalue_list :: "('v, 'n) native \<Rightarrow> gint \<Rightarrow> (ptr, 'v, 'n) shim" where
  "alloc_gvalue_list L n =
     bnd (native (Call_g_new0 TYPE_GValue n) (g_new0 L TYPE_GValue n)) (\<lambda>valv.
       ret valv)"

text \<open>\<^verbatim>\<open>valv[i] = *val;\<close>\<close>

definition val_list_insert :: "ptr \<Rightarrow> gint \<Rightarrow> ptr \<Rightarrow> (unit, 'v, 'n) shim" where
  "val_list_insert valv i val =
     bnd (load_GValue val) (\<lambda>v.
       store_GValue (ptr_add valv (sint i)) v)"

text \<open>\<^verbatim>\<open>return (g_new0(GValue, 1));\<close>\<close>

definition shim_g_value_alloc :: "('v, 'n) native \<Rightarrow> (ptr, 'v, 'n) shim" where
  "shim_g_value_alloc L = native (Call_g_new0 TYPE_GValue 1) (g_new0 L TYPE_GValue 1)"

text \<open>\<^verbatim>\<open>value = g_new0(GValue, 1); return (g_value_init(value, g_type));\<close>\<close>

definition shim_g_value_init :: "('v, 'n) native \<Rightarrow> GType \<Rightarrow> (ptr, 'v, 'n) shim" where
  "shim_g_value_init L g_type =
     bnd (native (Call_g_new0 TYPE_GValue 1) (g_new0 L TYPE_GValue 1)) (\<lambda>value.
       native (Call_g_value_init value g_type) (g_value_init L value g_type))"

text \<open>\<^verbatim>\<open>return (G_IS_VALUE(val));\<close>\<close>

definition shim_g_is_value :: "('v, 'n) native \<Rightarrow> ptr \<Rightarrow> (gint, 'v, 'n) shim" where
  "shim_g_is_value L val = native (Call_G_IS_VALUE val) (G_IS_VALUE L val)"

text \<open>\<^verbatim>\<open>return (G_VALUE_TYPE(val));\<close>\<close>

definition shim_g_value_type :: "('v, 'n) native \<Rightarrow> ptr \<Rightarrow> (GType, 'v, 'n) shim" where
  "shim_g_value_type L val = native (Call_G_VALUE_TYPE val) (G_VALUE_TYPE L val)"

text \<open>\<^verbatim>\<open>return (G_TYPE_FUNDAMENTAL(type));\<close>\<close>

definition shim_g_value_fundamental :: "('v, 'n) native \<Rightarrow> GType \<Rightarrow> (GType, 'v, 'n) shim" where
  "shim_g_value_fundamental L type =
     native (Call_G_TYPE_FUNDAMENTAL type) (G_TYPE_FUNDAMENTAL L type)"

text \<open>
  \<^verbatim>\<open>GClosure *closure = g_closure_new_simple(sizeof(GClosure), NULL);\<close>
  \<^verbatim>\<open>g_closure_set_marshal(closure, (GClosureMarshal)(goMarshal)); return closure;\<close>
\<close>

definition shim_g_closure_new :: "('v, 'n) native \<Rightarrow> (ptr, 'v, 'n) shim" where
  "shim_g_closure_new L =
     bnd (native (Call_g_closure_new_simple (sizeof_GClosure L) NULL)
            (g_closure_new_simple L (sizeof_GClosure L) NULL)) (\<lambda>closure.
     bnd (native (Call_g_closure_set_marshal closure goMarshal)
            (g_closure_set_marshal L closure goMarshal)) (\<lambda>_.
       ret closure))"

text \<open>
  The accessors of the variant types, each \<^verbatim>\<open>return (G_VARIANT_TYPE_X);\<close> for its own
  macro.
\<close>

definition shim_g_variant_type_boolean :: "('v, 'n) native \<Rightarrow> (ptr, 'v, 'n) shim" where
  "shim_g_variant_type_boolean L =
     native (Use_G_VARIANT_TYPE G_VARIANT_TYPE_BOOLEAN)
       (\<lambda>h. Some (variant_type L G_VARIANT_TYPE_BOOLEAN, h))"

definition shim_g_variant_type_byte :: "('v, 'n) native \<Rightarrow> (ptr, 'v, 'n) shim" where
  "shim_g_variant_type_byte L =
     native (Use_G_VARIANT_TYPE G_VARIANT_TYPE_BYTE)
       (\<lambda>h. Some (variant_type L G_VARIANT_TYPE_BYTE, h))"

definition shim_g_variant_type_int16 :: "('v, 'n) native \<Rightarrow> (ptr, 'v, 'n) shim" where
  "shim_g_variant_type_int16 L =
     native (Use_G_VARIANT_TYPE G_VARIANT_TYPE_INT16)
       (\<lambda>h. Some (variant_type L G_VARIANT_TYPE_INT16, h))"

definition shim_g_variant_type_uint16 :: "('v, 'n) native \<Rightarrow> (ptr, 'v, 'n) shim" where
  "shim_g_variant_type_uint16 L =
     native (Use_G_VARIANT_TYPE G_VARIANT_TYPE_UINT16)
       (\<lambda>h. Some (variant_type L G_VARIANT_TYPE_UINT16, h))"

definition shim_g_variant_type_int32 :: "('v, 'n) native \<Rightarrow> (ptr, 'v, 'n) shim" where
  "shim_g_variant_type_int32 L =
     native (Use_G_VARIANT_TYPE G_VARIANT_TYPE_INT32)
       (\<lambda>h. Some (variant_type L G_VARIANT_TYPE_INT32, h))"

definition shim_g_variant_type_uint32 :: "('v, 'n) native \<Rightarrow> (ptr, 'v, 'n) shim" where
  "shim_g_variant_type_uint32 L =
     native (Use_G_VARIANT_TYPE G_VARIANT_TYPE_UINT32)
       (\<lambda>h. Some (variant_type L G_VARIANT_TYPE_UINT32, h))"

definition shim_g_variant_type_int64 :: "('v, 'n) native \<Rightarrow> (ptr, 'v, 'n) shim" where
  "shim_g_variant_type_int64 L =
     native (Use_G_VARIANT_TYPE G_VARIANT_TYPE_INT64)
       (\<lambda>h. Some (variant_type L G_VARIANT_TYPE_INT64, h))"

definition shim_g_variant_type_uint64 :: "('v, 'n) native \<Rightarrow> (ptr, 'v, 'n) shim" where
  "shim_g_variant_type_uint64 L =
     native (Use_G_VARIANT_TYPE G_VARIANT_TYPE_UINT64)
       (\<lambda>h. Some (variant_type L G_VARIANT_TYPE_UINT64, h))"

definition shim_g_variant_type_handle :: "('v, 'n) native \<Rightarrow> (ptr, 'v, 'n) shim" where
  "shim_g_variant_type_handle L =
     native (Use_G_VARIANT_TYPE G_VARIANT_TYPE_HANDLE)
       (\<lambda>h. Some (variant_type L G_VARIANT_TYPE_HANDLE, h))"

definition shim_g_variant_type_double :: "('v, 'n) native \<Rightarrow> (ptr, 'v, 'n) shim" where
  "shim_g_variant_type_double L =
     native (Use_G_VARIANT_TYPE G_VARIANT_TYPE_DOUBLE)
       (\<lambda>h. Some (variant_type L G_VARIANT_TYPE_DOUBLE, h))"

definition shim_g_variant_type_string :: "('v, 'n) native \<Rightarrow> (ptr, 'v, 'n) shim" where
  "shim_g_variant_type_string L =
     native (Use_G_VARIANT_TYPE G_VARIANT_TYPE_STRING)
       (\<lambda>h. Some (variant_type L G_VARIANT_TYPE_STRING, h))"

definition shim_g_variant_type_object_path :: "('v, 'n) native \<Rightarrow> (ptr, 'v, 'n) shim" where
  "shim_g_variant_type_object_path L =
     native (Use_G_VARIANT_TYPE G_VARIANT_TYPE_OBJECT_PATH)
       (\<lambda>h. Some (variant_type L G_VARIANT_TYPE_OBJECT_PATH, h))"

definition shim_g_variant_type_signature :: "('v, 'n) native \<Rightarrow> (ptr, 'v, 'n) shim" where
  "shim_g_variant_type_signature L =
     native (Use_G_VARIANT_TYPE G_VARIANT_TYPE_SIGNATURE)
       (\<lambda>h. Some (variant_type L G_VARIANT_TYPE_SIGNATURE, h))"

definition shim_g_variant_type_variant :: "('v, 'n) native \<Rightarrow> (ptr, 'v, 'n) shim" where
  "shim_g_variant_type_variant L =
     native (Use_G_VARIANT_TYPE G_VARIANT_TYPE_VARIANT)
       (\<lambda>h. Some (variant_type L G_VARIANT_TYPE_VARIANT, h))"

definition shim_g_variant_type_any :: "('v, 'n) native \<Rightarrow> (ptr, 'v, 'n) shim" where
  "shim_g_variant_type_any L =
     native (Use_G_VARIANT_TYPE G_VARIANT_TYPE_ANY)
       (\<lambda>h. Some (variant_type L G_VARIANT_TYPE_ANY, h))"

definition shim_g_variant_type_basic :: "('v, 'n) native \<Rightarrow> (ptr, 'v, 'n) shim" where
  "shim_g_variant_type_basic L =
     native (Use_G_VARIANT_TYPE G_VARIANT_TYPE_BASIC)
       (\<lambda>h. Some (variant_type L G_VARIANT_TYPE_BASIC, h))"

definition shim_g_variant_type_maybe :: "('v, 'n) native \<Rightarrow> (ptr, 'v, 'n) shim" where
  "shim_g_variant_type_maybe L =
     native (Use_G_VARIANT_TYPE G_VARIANT_TYPE_MAYBE)
       (\<lambda>h. Some (variant_type L G_VARIANT_TYPE_MAYBE, h))"

definition shim_g_variant_type_array :: "('v, 'n) native \<Rightarrow> (ptr, 'v, 'n) shim" where
  "shim_g_variant_type_array L =
     native (Use_G_VARIANT_TYPE G_VARIANT_TYPE_ARRAY)
       (\<lambda>h. Some (variant_type L G_VARIANT_TYPE_ARRAY, h))"

definition shim_g_variant_type_tuple :: "('v, 'n) native \<Rightarrow> (ptr, 'v, 'n) shim" where
  "shim_g_variant_type_tuple L =
     native (Use_G_VARIANT_TYPE G_VARIANT_TYPE_TUPLE)
       (\<lambda>h. Some (variant_type L G_VARIANT_TYPE_TUPLE, h))"

definition shim_g_variant_type_unit :: "('v, 'n) native \<Rightarrow> (ptr, 'v, 'n) shim" where
  "shim_g_variant_type_unit L =
     native (Use_G_VARIANT_TYPE G_VARIANT_TYPE_UNIT)
       (\<lambda>h. Some (variant_type L G_VARIANT_TYPE_UNIT, h))"

definition shim_g_variant_type_dict_entry :: "('v, 'n) native \<Rightarrow> (ptr, 'v, 'n) shim" where
  "shim_g_variant_type_dict_entry L =
     native (Use_G_VARIANT_TYPE G_VARIANT_TYPE_DICT_ENTRY)
       (\<lambda>h. Some (variant_type L G_VARIANT_TYPE_DICT_ENTRY, h))"

definition shim_g_variant_type_dictionary :: "('v, 'n) native \<Rightarrow> (ptr, 'v, 'n) shim" where
  "shim_g_variant_type_dictionary L =
     native (Use_G_VARIANT_TYPE G_VARIANT_TYPE_DICTIONARY)
       (\<lambda>h. Some (variant_type L G_VARIANT_TYPE_DICTIONARY, h))"

definition shim_g_variant_type_string_array :: "('v, 'n) native \<Rightarrow> (ptr, 'v, 'n) shim" where
  "shim_g_variant_type_string_array L =
     native (Use_G_VARIANT_TYPE G_VARIANT_TYPE_STRING_ARRAY)
       (\<lambda>h. Some (variant_type L G_VARIANT_TYPE_STRING_ARRAY, h))"

definition shim_g_variant_type_object_path_array :: "('v, 'n) native \<Rightarrow> (ptr, 'v, 'n) shim" where
  "shim_g_variant_type_object_path_array L =
     native (Use_G_VARIANT_TYPE G_VARIANT_TYPE_OBJECT_PATH_ARRAY)
       (\<lambda>h. Some (variant_type L G_VARIANT_TYPE_OBJECT_PATH_ARRAY, h))"

definition shim_g_variant_type_bytestring :: "('v, 'n) native \<Rightarrow> (ptr, 'v, 'n) shim" where
  "shim_g_variant_type_bytestring L =
     native (Use_G_VARIANT_TYPE G_VARIANT_TYPE_BYTESTRING)
       (\<lambda>h. Some (variant_type L G_VARIANT_TYPE_BYTESTRING, h))"

definition shim_g_variant_type_bytestring_array :: "('v, 'n) native \<Rightarrow> (ptr, 'v, 'n) shim" where
  "shim_g_variant_type_bytestring_array L =
     native (Use_G_VARIANT_TYPE G_VARIANT_TYPE_BYTESTRING_ARRAY)
       (\<lambda>h. Some (variant_type L G_VARIANT_TYPE_BYTESTRING_ARRAY, h))"

definition shim_g_variant_type_vardict :: "('v, 'n) native \<Rightarrow> (ptr, 'v, 'n) shim" where
  "shim_g_variant_type_vardict L =
     native (Use_G_VARIANT_TYPE G_VARIANT_TYPE_VARDICT)
       (\<lambda>h. Some (variant_type L G_VARIANT_TYPE_VARDICT, h))"

subsection \<open>gtk.go.h\<close>

text \<open>\<^verbatim>\<open>return ((GType *)g_new0(GType, n));\<close>\<close>

definition alloc_types :: "('v, 'n) native \<Rightarrow> gint \<Rightarrow> (ptr, 'v, 'n) shim" where
  "alloc_types L n = native (Call_g_new0 TYPE_GType n) (g_new0 L TYPE_GType n)"

text \<open>\<^verbatim>\<open>types[n] = t;\<close>\<close>

definition set_type :: "ptr \<Rightarrow> gint \<Rightarrow> GType \<Rightarrow> (unit, 'v, 'n) shim" where
  "set_type types n t = store_GType (ptr_add types (sint n)) t"

text \<open>
  \<^verbatim>\<open>tvc = gtk_tree_view_column_new_with_attributes(title, renderer, attribute, column, NULL);\<close>
  \<^verbatim>\<open>return (tvc);\<close>
\<close>

definition shim_gtk_tree_view_column_new_with_attributes_one ::
  "('v, 'n) native \<Rightarrow> ptr \<Rightarrow> ptr \<Rightarrow> ptr \<Rightarrow> gint \<Rightarrow> (ptr, 'v, 'n) shim" where
  "shim_gtk_tree_view_column_new_with_attributes_one L title renderer attribute column =
     bnd (native
            (Call_gtk_tree_view_column_new_with_attributes title renderer
               [VPtr attribute, VInt column, VPtr NULL])
            (gtk_tree_view_column_new_with_attributes L title renderer
               [VPtr attribute, VInt column, VPtr NULL])) (\<lambda>tvc.
       ret tvc)"

text \<open>
  \<^verbatim>\<open>w = gtk_message_dialog_new(parent, flags, type, buttons, "%s", msg); return (w);\<close>
\<close>

definition shim_gtk_message_dialog_new ::
  "('v, 'n) native \<Rightarrow> ptr \<Rightarrow> gint \<Rightarrow> gint \<Rightarrow> gint \<Rightarrow> ptr \<Rightarrow> (ptr, 'v, 'n) shim" where
  "shim_gtk_message_dialog_new L parent flags type buttons msg =
     bnd (native
            (Call_gtk_message_dialog_new parent flags type buttons (StrLit ''%s'') [VPtr msg])
            (gtk_message_dialog_new L parent flags type buttons (StrLit ''%s'') [VPtr msg]))
       (\<lambda>w.
       ret w)"

text \<open>\<^verbatim>\<open>return error->message;\<close>\<close>

definition error_get_message :: "ptr \<Rightarrow> (ptr, 'v, 'n) shim" where
  "error_get_message error =
     bnd (load_GError error) (\<lambda>e.
       ret (message e))"

text \<open>\<^verbatim>\<open>return G_OBJECT_CLASS_NAME(G_OBJECT_GET_CLASS(object));\<close>\<close>

definition object_get_class_name :: "('v, 'n) native \<Rightarrow> ptr \<Rightarrow> (ptr, 'v, 'n) shim" where
  "object_get_class_name L object =
     bnd (native (Call_G_OBJECT_GET_CLASS object) (G_OBJECT_GET_CLASS L object)) (\<lambda>cls.
       native (Call_G_OBJECT_CLASS_NAME cls) (G_OBJECT_CLASS_NAME L cls))"

subsection \<open>What a function is observed to do\<close>

text \<open>
  \<open>forwards_at f c g s\<close>: run from the machine \<open>s\<close>, the function \<open>f\<close> makes the native
  call \<open>c\<close> and no other, returns what the native function \<open>g\<close> returns and leaves the
  memory \<open>g\<close> leaves; it aborts when \<open>g\<close> does not return.
\<close>

definition forwards_at ::
  "('a, 'v, 'n) shim \<Rightarrow> native_call \<Rightarrow> (('v, 'n) heap \<Rightarrow> ('a \<times> ('v, 'n) heap) option)
    \<Rightarrow> ('v, 'n) machine \<Rightarrow> bool" where
  "forwards_at f c g s \<longleftrightarrow>
     trace (snd (f s)) = trace s @ [c] \<and>
     (case g (mem s) of
        None \<Rightarrow> fst (f s) = Abort \<and> mem (snd (f s)) = mem s
      | Some (r, h) \<Rightarrow> fst (f s) = Ret r \<and> mem (snd (f s)) = h)"

text \<open>The native calls a function makes when run from \<open>s\<close>: what it adds to the trace.\<close>

definition calls_made :: "('a, 'v, 'n) shim \<Rightarrow> ('v, 'n) machine \<Rightarrow> native_call list" where
  "calls_made f s = drop (length (trace s)) (trace (snd (f s)))"


text \<open>
  \<open>fresh_zeroed bs bs' p n\<close>: between the memories \<open>bs\<close> and \<open>bs'\<close> of one type, \<open>p\<close> has
  become an array of exactly \<open>n\<close> elements, none of which existed in \<open>bs\<close> and each of which
  is zero in \<open>bs'\<close>, and every element of \<open>bs\<close> is in \<open>bs'\<close> as it was.
\<close>

definition fresh_zeroed :: "'a::zero list list \<Rightarrow> 'a list list \<Rightarrow> ptr \<Rightarrow> nat \<Rightarrow> bool" where
  "fresh_zeroed bs bs' p n \<longleftrightarrow>
     (\<forall>k. k < n \<longrightarrow>
        \<not> in_bounds bs (ptr_add p (int k)) \<and> rd bs' (ptr_add p (int k)) = Some 0) \<and>
     \<not> in_bounds bs' (ptr_add p (int n)) \<and>
     (\<forall>q. in_bounds bs q \<longrightarrow> rd bs' q = rd bs q)"

text \<open>
  Modelled from the spec: \<open>g_new0\<close> is a macro of the native library and is not in the
  sources; the claims about the allocating functions say it returns a freshly allocated
  array of \<open>n\<close> elements of the type it is given, every element zero, for every count
  \<open>n \<ge> 0\<close>. A native library meets this contract when its \<open>g_new0\<close> does so from every
  memory.
\<close>

definition g_new0_contract :: "('v::zero, 'n) native \<Rightarrow> bool" where
  "g_new0_contract L \<longleftrightarrow>
     (\<forall>n h. 0 \<le> sint n \<longrightarrow>
        (\<exists>p h'. g_new0 L TYPE_GValue n h = Some (p, h') \<and>
                 fresh_zeroed (gvalues h) (gvalues h') p (nat (sint n))) \<and>
        (\<exists>p h'. g_new0 L TYPE_GType n h = Some (p, h') \<and>
                 fresh_zeroed (gtypes h) (gtypes h') p (nat (sint n))))"

text \<open>
  Modelled from the spec: \<open>G_IS_VALUE\<close> is a macro of the native library and is not in the
  sources; the claim about \<open>_g_value_alloc\<close> says it does not hold of a \<open>GValue\<close> that is
  all zero. \<open>FALSE\<close> is \<open>0\<close>.
\<close>

definition G_IS_VALUE_contract :: "('v::zero, 'n) native \<Rightarrow> bool" where
  "G_IS_VALUE_contract L \<longleftrightarrow>
     (\<forall>val h. rd (gvalues h) val = Some 0 \<longrightarrow> (\<exists>h'. G_IS_VALUE L val h = Some (0, h')))"

text \<open>
  Modelled from the spec: \<open>gtk_message_dialog_new\<close> is a function of the native library
  and is not in the sources; it sets the message text of the dialog to its format printed
  in the manner of \<open>printf\<close> with the arguments that follow. \<open>printf_text S format args\<close>
  is that text, \<open>S\<close> reading the C string at a pointer: a character other than \<open>%\<close> stands
  for itself, \<open>%%\<close> for one \<open>%\<close>, and \<open>%s\<close> for the string at the next argument. The text
  is \<open>None\<close> where this model does not define it: any other conversion, a conversion with
  no argument of its type left, or an argument that is not a string.
\<close>

fun printf_text :: "(ptr \<Rightarrow> string option) \<Rightarrow> string \<Rightarrow> vararg list \<Rightarrow> string option" where
  "printf_text S [] args = Some []"
| "printf_text S [c] args = (if c = CHR ''%'' then None else Some [c])"
| "printf_text S (c # d # format) args =
     (if c \<noteq> CHR ''%'' then map_option ((#) c) (printf_text S (d # format) args)
      else if d = CHR ''%'' then map_option ((#) c) (printf_text S format args)
      else if d = CHR ''s'' then
        (case args of
           VPtr p # rest \<Rightarrow>
             (case S p of
                None \<Rightarrow> None
              | Some str \<Rightarrow> map_option ((@) str) (printf_text S format rest))
         | _ \<Rightarrow> None)
      else None)"

text \<open>The message text of the dialog that a call of \<open>gtk_message_dialog_new\<close> creates.\<close>

fun dialog_text :: "('v, 'n) heap \<Rightarrow> native_call \<Rightarrow> string option" where
  "dialog_text h (Call_gtk_message_dialog_new parent flags type buttons format args) =
     (case cstring (gchars h) format of
        None \<Rightarrow> None
      | Some f \<Rightarrow> printf_text (cstring (gchars h)) f args)"
| "dialog_text h _ = None"

subsection \<open>A sample native library and a sample machine\<close>

text \<open>
  A small library to run the functions on concrete inputs. Its \<open>GValue\<close> is the type tag
  alone (a natural number), and its toolkit state counts the objects created. \<open>g_new0\<close>
  appends a zero-filled block and refuses a negative count; \<open>G_IS_VALUE\<close> holds of a
  \<open>GValue\<close> whose type tag is set.
\<close>

definition sample_g_new0 ::
  "ctype \<Rightarrow> gint \<Rightarrow> (nat, nat) heap \<Rightarrow> (ptr \<times> (nat, nat) heap) option" where
  "sample_g_new0 ty n h =
     (if sint n < 0 then None
      else case ty of
        TYPE_GValue \<Rightarrow>
          Some (Ptr (length (gvalues h)) 0,
                h\<lparr>gvalues := gvalues h @ [replicate (nat (sint n)) 0]\<rparr>)
      | TYPE_GType \<Rightarrow>
          Some (Ptr (length (gtypes h)) 0,
                h\<lparr>gtypes := gtypes h @ [replicate (nat (sint n)) 0]\<rparr>))"

definition sample_new_object :: "(nat, nat) heap \<Rightarrow> (ptr \<times> (nat, nat) heap) option" where
  "sample_new_object h = Some (Ptr (toolkit h) 0, h\<lparr>toolkit := Suc (toolkit h)\<rparr>)"

fun sample_variant_type :: "gvariant_macro \<Rightarrow> ptr" where
  "sample_variant_type G_VARIANT_TYPE_BOOLEAN = StrLit ''b''"
| "sample_variant_type G_VARIANT_TYPE_BYTE = StrLit ''y''"
| "sample_variant_type G_VARIANT_TYPE_INT16 = StrLit ''n''"
| "sample_variant_type G_VARIANT_TYPE_UINT16 = StrLit ''q''"
| "sample_variant_type G_VARIANT_TYPE_INT32 = StrLit ''i''"
| "sample_variant_type G_VARIANT_TYPE_UINT32 = StrLit ''u''"
| "sample_variant_type G_VARIANT_TYPE_INT64 = StrLit ''x''"
| "sample_variant_type G_VARIANT_TYPE_UINT64 = StrLit ''t''"
| "sample_variant_type G_VARIANT_TYPE_HANDLE = StrLit ''h''"
| "sample_variant_type G_VARIANT_TYPE_DOUBLE = StrLit ''d''"
| "sample_variant_type G_VARIANT_TYPE_STRING = StrLit ''s''"
| "sample_variant_type G_VARIANT_TYPE_OBJECT_PATH = StrLit ''o''"
| "sample_variant_type G_VARIANT_TYPE_SIGNATURE = StrLit ''g''"
| "sample_variant_type G_VARIANT_TYPE_VARIANT = StrLit ''v''"
| "sample_variant_type G_VARIANT_TYPE_ANY = StrLit ''*''"
| "sample_variant_type G_VARIANT_TYPE_BASIC = StrLit ''?''"
| "sample_variant_type G_VARIANT_TYPE_MAYBE = StrLit ''m*''"
| "sample_variant_type G_VARIANT_TYPE_ARRAY = StrLit ''a*''"
| "sample_variant_type G_VARIANT_TYPE_TUPLE = StrLit ''r''"
| "sample_variant_type G_VARIANT_TYPE_UNIT = StrLit ''()''"
| "sample_variant_type G_VARIANT_TYPE_DICT_ENTRY = StrLit ''{?*}''"
| "sample_variant_type G_VARIANT_TYPE_DICTIONARY = StrLit ''a{?*}''"
| "sample_variant_type G_VARIANT_TYPE_STRING_ARRAY = StrLit ''as''"
| "sample_variant_type G_VARIANT_TYPE_OBJECT_PATH_ARRAY = StrLit ''ao''"
| "sample_variant_type G_VARIANT_TYPE_BYTESTRING = StrLit ''ay''"
| "sample_variant_type G_VARIANT_TYPE_BYTESTRING_ARRAY = StrLit ''aay''"
| "sample_variant_type G_VARIANT_TYPE_VARDICT = StrLit ''a{sv}''"

definition sample_native :: "(nat, nat) native" where
  "sample_native =
     \<lparr> G_TYPE_FROM_INSTANCE = (\<lambda>instance h. Some (80, h)),
       g_object_set = (\<lambda>object name args h. Some ((), h)),
       g_new0 = sample_g_new0,
       g_value_init = (\<lambda>value t h.
          case wr (gvalues h) value t of
            None \<Rightarrow> None
          | Some bs \<Rightarrow> Some (value, h\<lparr>gvalues := bs\<rparr>)),
       G_IS_VALUE = (\<lambda>val h.
          Some (case rd (gvalues h) val of
                  None \<Rightarrow> 0
                | Some t \<Rightarrow> if t = 0 then 0 else 1, h)),
       G_VALUE_TYPE = (\<lambda>val h.
          case rd (gvalues h) val of None \<Rightarrow> None | Some t \<Rightarrow> Some (t, h)),
       G_TYPE_FUNDAMENTAL = (\<lambda>t h. Some (t, h)),
       sizeof_GClosure = 32,
       g_closure_new_simple = (\<lambda>sz data. sample_new_object),
       g_closure_set_marshal = (\<lambda>closure marshal h. Some ((), h)),
       variant_type = sample_variant_type,
       gtk_tree_view_column_new_with_attributes = (\<lambda>title cell args. sample_new_object),
       gtk_message_dialog_new = (\<lambda>parent flags type buttons format args. sample_new_object),
       G_OBJECT_GET_CLASS = (\<lambda>object h. Some (Ptr 0 0, h)),
       G_OBJECT_CLASS_NAME = (\<lambda>cls h. Some (StrLit ''GtkWindow'', h)) \<rparr>"

definition sample_heap :: "(nat, nat) heap" where
  "sample_heap =
     \<lparr> gvalues = [[0, 0, 0], [7]],
       gtypes = [[0, 0]],
       gpointers = [[Ptr 5 0]],
       gerrors = [[\<lparr>message = StrLit ''boom''\<rparr>]],
       gchars = [''50%d off%n'' @ [CHR 0x00]],
       toolkit = 0 \<rparr>"

definition sample_machine :: "(nat, nat) machine" where
  "sample_machine = \<lparr> mem = sample_heap, trace = [] \<rparr>"



section \<open>Properties\<close>

subsection \<open>Loads, stores and calls\<close>


lemma wr_eq_None: "wr bs p v = None \<longleftrightarrow> \<not> in_bounds bs p"
  by (cases p) simp_all

lemma rd_wr_same: "wr bs p v = Some bs' \<Longrightarrow> rd bs' p = Some v"
  by (cases p) (auto split: if_splits)

lemma rd_wr_other: "wr bs p v = Some bs' \<Longrightarrow> q \<noteq> p \<Longrightarrow> rd bs' q = rd bs q"
  by (cases p; cases q) (auto simp: nth_list_update split: if_splits)

lemma ptr_add_inject: "in_bounds bs (ptr_add p i) \<Longrightarrow> ptr_add p j = ptr_add p i \<longleftrightarrow> j = i"
  by (cases p) simp_all

lemma native_Some:
  "g (mem s) = Some (r, h) \<Longrightarrow> native c g s = (Ret r, \<lparr>mem = h, trace = trace s @ [c]\<rparr>)"
  by (simp add: native_def)

lemma forwards_at_native: "forwards_at (native c g) c g s"
  by (simp add: forwards_at_def native_def split: option.splits)

lemma bnd_ret: "bnd m ret = m"
proof
  fix s
  show "bnd m ret s = m s"
    by (cases "m s"; cases "fst (m s)") (simp_all add: bnd_def ret_def)
qed

lemma calls_made_native: "calls_made (native c g) s = [c]"
  by (simp add: calls_made_def native_def split: option.splits)

subsection \<open>The sample library at work\<close>

lemma sample_fields:
  "G_TYPE_FROM_INSTANCE sample_native instance h = Some (80, h)"
  "g_object_set sample_native object name args h = Some ((), h)"
  "g_new0 sample_native = sample_g_new0"
  "G_TYPE_FUNDAMENTAL sample_native t h = Some (t, h)"
  "sizeof_GClosure sample_native = 32"
  "g_closure_new_simple sample_native sz data = sample_new_object"
  "g_closure_set_marshal sample_native closure marshal h = Some ((), h)"
  "variant_type sample_native = sample_variant_type"
  "gtk_tree_view_column_new_with_attributes sample_native title cell args = sample_new_object"
  "gtk_message_dialog_new sample_native parent flags type buttons format args = sample_new_object"
  "G_OBJECT_GET_CLASS sample_native object h = Some (Ptr 0 0, h)"
  "G_OBJECT_CLASS_NAME sample_native cls h = Some (StrLit ''GtkWindow'', h)"
  by (simp_all add: sample_native_def)

lemma sample_g_value_init:
  "g_value_init sample_native value t h =
     (case wr (gvalues h) value t of None \<Rightarrow> None | Some bs \<Rightarrow> Some (value, h\<lparr>gvalues := bs\<rparr>))"
  by (simp add: sample_native_def)

lemma sample_G_IS_VALUE:
  "G_IS_VALUE sample_native val h =
     Some (case rd (gvalues h) val of None \<Rightarrow> 0 | Some t \<Rightarrow> if t = 0 then 0 else 1, h)"
  by (simp add: sample_native_def)

lemma sample_machine_simps:
  "mem sample_machine = sample_heap"
  "trace sample_machine = []"
  "gvalues sample_heap = [[0, 0, 0], [7]]"
  "gtypes sample_heap = [[0, 0]]"
  "gpointers sample_heap = [[Ptr 5 0]]"
  "gerrors sample_heap = [[\<lparr>message = StrLit ''boom''\<rparr>]]"
  "gchars sample_heap = [''50%d off%n'' @ [CHR 0x00]]"
  "toolkit sample_heap = 0"
  by (simp_all add: sample_machine_def sample_heap_def)

subsection \<open>Arguments and results of the native calls\<close>

text \<open>
  C1 says that every function passes exactly its own arguments, unchanged, to the native
  call, and names \<open>_g_object_set_one\<close> and its argument \<open>val\<close>. On the sample machine
  \<open>val\<close> is the pointer \<open>Ptr 0 0\<close>, the cell it points to holds \<open>Ptr 5 0\<close>, and the call of
  \<open>g_object_set\<close> is given \<open>Ptr 5 0\<close> and a closing \<open>NULL\<close>: \<open>val\<close> itself is not among the
  arguments.
\<close>

theorem g_object_set_one_passes_pointee:
  "calls_made (shim_g_object_set_one sample_native (Ptr 3 0) (StrLit ''label'') (Ptr 0 0))
      sample_machine
     = [Call_g_object_set (Ptr 3 0) (StrLit ''label'') [VPtr (Ptr 5 0), VPtr NULL]] \<and>
   VPtr (Ptr 0 0) \<notin> set [VPtr (Ptr 5 0), VPtr NULL]"
  by (simp add: calls_made_def shim_g_object_set_one_def bnd_def load_gpointer_def native_def
      sample_fields sample_machine_simps)

text \<open>The definitions of the accessors of the variant types, as one fact.\<close>

lemmas accessor_defs =
  shim_g_variant_type_boolean_def shim_g_variant_type_byte_def
  shim_g_variant_type_int16_def shim_g_variant_type_uint16_def
  shim_g_variant_type_int32_def shim_g_variant_type_uint32_def
  shim_g_variant_type_int64_def shim_g_variant_type_uint64_def
  shim_g_variant_type_handle_def shim_g_variant_type_double_def
  shim_g_variant_type_string_def shim_g_variant_type_object_path_def
  shim_g_variant_type_signature_def shim_g_variant_type_variant_def
  shim_g_variant_type_any_def shim_g_variant_type_basic_def shim_g_variant_type_maybe_def
  shim_g_variant_type_array_def shim_g_variant_type_tuple_def shim_g_variant_type_unit_def
  shim_g_variant_type_dict_entry_def shim_g_variant_type_dictionary_def
  shim_g_variant_type_string_array_def shim_g_variant_type_object_path_array_def
  shim_g_variant_type_bytestring_def shim_g_variant_type_bytestring_array_def
  shim_g_variant_type_vardict_def

text \<open>
  C1, as amended. Every function that calls the native library passes each of its own
  arguments on unchanged and in the source's order, with one exception:
  \<open>_g_object_set_one\<close> passes the pointer stored in the cell \<open>val\<close> points to, not \<open>val\<close>.
  Where the native signature asks for more, fixed arguments are added: the \<open>NULL\<close> that
  closes a variadic list, the format \<open>"%s"\<close>, the element type and the count \<open>1\<close> of
  \<open>g_new0\<close>, \<open>sizeof(GClosure)\<close>, \<open>NULL\<close> and \<open>goMarshal\<close>. The result of the call is
  returned unchanged; \<open>_g_closure_new\<close> returns the closure of its first call, and
  \<open>_g_value_init\<close> and \<open>object_get_class_name\<close> pass the result of their first call to
  the second and return what the second returns. \<open>val_list_insert\<close>, \<open>set_type\<close> and
  \<open>error_get_message\<close> call nothing.
\<close>

theorem shims_forward_arguments:
  "forwards_at (shim_g_type_from_instance L instance)
     (Call_G_TYPE_FROM_INSTANCE instance) (G_TYPE_FROM_INSTANCE L instance) s
   \<and> (case rd (gpointers (mem s)) val of
        None \<Rightarrow> shim_g_object_set_one L object property_name val s = (Undefined (Load val), s)
      | Some v \<Rightarrow>
          forwards_at (shim_g_object_set_one L object property_name val)
            (Call_g_object_set object property_name [VPtr v, VPtr NULL])
            (g_object_set L object property_name [VPtr v, VPtr NULL]) s)
   \<and> forwards_at (alloc_gvalue_list L n) (Call_g_new0 TYPE_GValue n) (g_new0 L TYPE_GValue n) s
   \<and> forwards_at (shim_g_value_alloc L) (Call_g_new0 TYPE_GValue 1) (g_new0 L TYPE_GValue 1) s
   \<and> (case g_new0 L TYPE_GValue 1 (mem s) of
        None \<Rightarrow> fst (shim_g_value_init L g_type s) = Abort
      | Some (value, h) \<Rightarrow>
          trace (snd (shim_g_value_init L g_type s))
            = trace s @ [Call_g_new0 TYPE_GValue 1, Call_g_value_init value g_type] \<and>
          (case g_value_init L value g_type h of
             None \<Rightarrow> fst (shim_g_value_init L g_type s) = Abort
           | Some (r, h') \<Rightarrow>
               fst (shim_g_value_init L g_type s) = Ret r \<and>
               mem (snd (shim_g_value_init L g_type s)) = h'))
   \<and> forwards_at (shim_g_is_value L gv) (Call_G_IS_VALUE gv) (G_IS_VALUE L gv) s
   \<and> forwards_at (shim_g_value_type L gv) (Call_G_VALUE_TYPE gv) (G_VALUE_TYPE L gv) s
   \<and> forwards_at (shim_g_value_fundamental L t)
       (Call_G_TYPE_FUNDAMENTAL t) (G_TYPE_FUNDAMENTAL L t) s
   \<and> (case g_closure_new_simple L (sizeof_GClosure L) NULL (mem s) of
        None \<Rightarrow> fst (shim_g_closure_new L s) = Abort
      | Some (closure, h) \<Rightarrow>
          trace (snd (shim_g_closure_new L s))
            = trace s @ [Call_g_closure_new_simple (sizeof_GClosure L) NULL,
                         Call_g_closure_set_marshal closure goMarshal] \<and>
          (case g_closure_set_marshal L closure goMarshal h of
             None \<Rightarrow> fst (shim_g_closure_new L s) = Abort
           | Some (u, h') \<Rightarrow>
               fst (shim_g_closure_new L s) = Ret closure \<and>
               mem (snd (shim_g_closure_new L s)) = h'))
   \<and> forwards_at (alloc_types L n) (Call_g_new0 TYPE_GType n) (g_new0 L TYPE_GType n) s
   \<and> forwards_at (shim_gtk_tree_view_column_new_with_attributes_one L title renderer attribute column)
       (Call_gtk_tree_view_column_new_with_attributes title renderer
          [VPtr attribute, VInt column, VPtr NULL])
       (gtk_tree_view_column_new_with_attributes L title renderer
          [VPtr attribute, VInt column, VPtr NULL]) s
   \<and> forwards_at (shim_gtk_message_dialog_new L parent flags type buttons msg)
       (Call_gtk_message_dialog_new parent flags type buttons (StrLit ''%s'') [VPtr msg])
       (gtk_message_dialog_new L parent flags type buttons (StrLit ''%s'') [VPtr msg]) s
   \<and> (case G_OBJECT_GET_CLASS L object (mem s) of
        None \<Rightarrow> fst (object_get_class_name L object s) = Abort
      | Some (cls, h) \<Rightarrow>
          trace (snd (object_get_class_name L object s))
            = trace s @ [Call_G_OBJECT_GET_CLASS object, Call_G_OBJECT_CLASS_NAME cls] \<and>
          (case G_OBJECT_CLASS_NAME L cls h of
             None \<Rightarrow> fst (object_get_class_name L object s) = Abort
           | Some (r, h') \<Rightarrow>
               fst (object_get_class_name L object s) = Ret r \<and>
               mem (snd (object_get_class_name L object s)) = h'))
   \<and> calls_made (val_list_insert valv i gv) s = []
   \<and> calls_made (set_type types k t) s = []
   \<and> calls_made (error_get_message err) s = []
   \<and> forwards_at (shim_g_variant_type_boolean L) (Use_G_VARIANT_TYPE G_VARIANT_TYPE_BOOLEAN)
       (\<lambda>h. Some (variant_type L G_VARIANT_TYPE_BOOLEAN, h)) s
   \<and> forwards_at (shim_g_variant_type_byte L) (Use_G_VARIANT_TYPE G_VARIANT_TYPE_BYTE)
       (\<lambda>h. Some (variant_type L G_VARIANT_TYPE_BYTE, h)) s
   \<and> forwards_at (shim_g_variant_type_int16 L) (Use_G_VARIANT_TYPE G_VARIANT_TYPE_INT16)
       (\<lambda>h. Some (variant_type L G_VARIANT_TYPE_INT16, h)) s
   \<and> forwards_at (shim_g_variant_type_uint16 L) (Use_G_VARIANT_TYPE G_VARIANT_TYPE_UINT16)
       (\<lambda>h. Some (variant_type L G_VARIANT_TYPE_UINT16, h)) s
   \<and> forwards_at (shim_g_variant_type_int32 L) (Use_G_VARIANT_TYPE G_VARIANT_TYPE_INT32)
       (\<lambda>h. Some (variant_type L G_VARIANT_TYPE_INT32, h)) s
   \<and> forwards_at (shim_g_variant_type_uint32 L) (Use_G_VARIANT_TYPE G_VARIANT_TYPE_UINT32)
       (\<lambda>h. Some (variant_type L G_VARIANT_TYPE_UINT32, h)) s
   \<and> forwards_at (shim_g_variant_type_int64 L) (Use_G_VARIANT_TYPE G_VARIANT_TYPE_INT64)
       (\<lambda>h. Some (variant_type L G_VARIANT_TYPE_INT64, h)) s
   \<and> forwards_at (shim_g_variant_type_uint64 L) (Use_G_VARIANT_TYPE G_VARIANT_TYPE_UINT64)
       (\<lambda>h. Some (variant_type L G_VARIANT_TYPE_UINT64, h)) s
   \<and> forwards_at (shim_g_variant_type_handle L) (Use_G_VARIANT_TYPE G_VARIANT_TYPE_HANDLE)
       (\<lambda>h. Some (variant_type L G_VARIANT_TYPE_HANDLE, h)) s
   \<and> forwards_at (shim_g_variant_type_double L) (Use_G_VARIANT_TYPE G_VARIANT_TYPE_DOUBLE)
       (\<lambda>h. Some (variant_type L G_VARIANT_TYPE_DOUBLE, h)) s
   \<and> forwards_at (shim_g_variant_type_string L) (Use_G_VARIANT_TYPE G_VARIANT_TYPE_STRING)
       (\<lambda>h. Some (variant_type L G_VARIANT_TYPE_STRING, h)) s
   \<and> forwards_at (shim_g_variant_type_object_path L) (Use_G_VARIANT_TYPE G_VARIANT_TYPE_OBJECT_PATH)
       (\<lambda>h. Some (variant_type L G_VARIANT_TYPE_OBJECT_PATH, h)) s
   \<and> forwards_at (shim_g_variant_type_signature L) (Use_G_VARIANT_TYPE G_VARIANT_TYPE_SIGNATURE)
       (\<lambda>h. Some (variant_type L G_VARIANT_TYPE_SIGNATURE, h)) s
   \<and> forwards_at (shim_g_variant_type_variant L) (Use_G_VARIANT_TYPE G_VARIANT_TYPE_VARIANT)
       (\<lambda>h. Some (variant_type L G_VARIANT_TYPE_VARIANT, h)) s
   \<and> forwards_at (shim_g_variant_type_any L) (Use_G_VARIANT_TYPE G_VARIANT_TYPE_ANY)
       (\<lambda>h. Some (variant_type L G_VARIANT_TYPE_ANY, h)) s
   \<and> forwards_at (shim_g_variant_type_basic L) (Use_G_VARIANT_TYPE G_VARIANT_TYPE_BASIC)
       (\<lambda>h. Some (variant_type L G_VARIANT_TYPE_BASIC, h)) s
   \<and> forwards_at (shim_g_variant_type_maybe L) (Use_G_VARIANT_TYPE G_VARIANT_TYPE_MAYBE)
       (\<lambda>h. Some (variant_type L G_VARIANT_TYPE_MAYBE, h)) s
   \<and> forwards_at (shim_g_variant_type_array L) (Use_G_VARIANT_TYPE G_VARIANT_TYPE_ARRAY)
       (\<lambda>h. Some (variant_type L G_VARIANT_TYPE_ARRAY, h)) s
   \<and> forwards_at (shim_g_variant_type_tuple L) (Use_G_VARIANT_TYPE G_VARIANT_TYPE_TUPLE)
       (\<lambda>h. Some (variant_type L G_VARIANT_TYPE_TUPLE, h)) s
   \<and> forwards_at (shim_g_variant_type_unit L) (Use_G_VARIANT_TYPE G_VARIANT_TYPE_UNIT)
       (\<lambda>h. Some (variant_type L G_VARIANT_TYPE_UNIT, h)) s
   \<and> forwards_at (shim_g_variant_type_dict_entry L) (Use_G_VARIANT_TYPE G_VARIANT_TYPE_DICT_ENTRY)
       (\<lambda>h. Some (variant_type L G_VARIANT_TYPE_DICT_ENTRY, h)) s
   \<and> forwards_at (shim_g_variant_type_dictionary L) (Use_G_VARIANT_TYPE G_VARIANT_TYPE_DICTIONARY)
       (\<lambda>h. Some (variant_type L G_VARIANT_TYPE_DICTIONARY, h)) s
   \<and> forwards_at (shim_g_variant_type_string_array L) (Use_G_VARIANT_TYPE G_VARIANT_TYPE_STRING_ARRAY)
       (\<lambda>h. Some (variant_type L G_VARIANT_TYPE_STRING_ARRAY, h)) s
   \<and> forwards_at (shim_g_variant_type_object_path_array L) (Use_G_VARIANT_TYPE G_VARIANT_TYPE_OBJECT_PATH_ARRAY)
       (\<lambda>h. Some (variant_type L G_VARIANT_TYPE_OBJECT_PATH_ARRAY, h)) s
   \<and> forwards_at (shim_g_variant_type_bytestring L) (Use_G_VARIANT_TYPE G_VARIANT_TYPE_BYTESTRING)
       (\<lambda>h. Some (variant_type L G_VARIANT_TYPE_BYTESTRING, h)) s
   \<and> forwards_at (shim_g_variant_type_bytestring_array L) (Use_G_VARIANT_TYPE G_VARIANT_TYPE_BYTESTRING_ARRAY)
       (\<lambda>h. Some (variant_type L G_VARIANT_TYPE_BYTESTRING_ARRAY, h)) s
   \<and> forwards_at (shim_g_variant_type_vardict L) (Use_G_VARIANT_TYPE G_VARIANT_TYPE_VARDICT)
       (\<lambda>h. Some (variant_type L G_VARIANT_TYPE_VARDICT, h)) s"
proof (intro conjI)
  show "case rd (gpointers (mem s)) val of
        None \<Rightarrow> shim_g_object_set_one L object property_name val s = (Undefined (Load val), s)
      | Some v \<Rightarrow>
          forwards_at (shim_g_object_set_one L object property_name val)
            (Call_g_object_set object property_name [VPtr v, VPtr NULL])
            (g_object_set L object property_name [VPtr v, VPtr NULL]) s"
    by (simp add: shim_g_object_set_one_def bnd_def load_gpointer_def forwards_at_def native_def
        split: option.splits)
next
  show "calls_made (val_list_insert valv i gv) s = []"
    by (simp add: calls_made_def val_list_insert_def bnd_def load_GValue_def store_GValue_def
        split: option.splits)
next
  show "calls_made (set_type types k t) s = []"
    by (simp add: calls_made_def set_type_def store_GType_def split: option.splits)
next
  show "calls_made (error_get_message err) s = []"
    by (simp add: calls_made_def error_get_message_def bnd_def load_GError_def ret_def
        split: option.splits)
qed (simp_all add: shim_g_type_from_instance_def alloc_gvalue_list_def shim_g_value_alloc_def
    shim_g_value_init_def shim_g_is_value_def shim_g_value_type_def shim_g_value_fundamental_def
    shim_g_closure_new_def alloc_types_def shim_gtk_tree_view_column_new_with_attributes_one_def
    shim_gtk_message_dialog_new_def object_get_class_name_def accessor_defs
    bnd_ret forwards_at_native bnd_def native_def ret_def split: option.splits)

subsection \<open>How many native calls a function makes\<close>

text \<open>
  C2 says that every function is a single forward to one native call or macro, and names
  \<open>_g_closure_new\<close> and \<open>_g_value_init\<close>. Run on the sample machine, each of the two
  makes two native calls.
\<close>

theorem closure_new_and_value_init_call_twice:
  "calls_made (shim_g_closure_new sample_native) sample_machine
     = [Call_g_closure_new_simple 32 NULL, Call_g_closure_set_marshal (Ptr 0 0) goMarshal] \<and>
   calls_made (shim_g_value_init sample_native 80) sample_machine
     = [Call_g_new0 TYPE_GValue 1, Call_g_value_init (Ptr 2 0) 80]"
  by (simp add: calls_made_def shim_g_closure_new_def shim_g_value_init_def bnd_def native_def
      ret_def sample_fields sample_g_value_init sample_machine_simps sample_new_object_def
      sample_g_new0_def)

text \<open>
  C2, as amended. A function is made of native calls or macros and of loads and stores
  through its pointer arguments, and of nothing else. \<open>_g_closure_new\<close> makes two calls,
  \<open>g_closure_new_simple\<close> and then \<open>g_closure_set_marshal\<close> on its result;
  \<open>_g_value_init\<close> makes two, \<open>g_new0\<close> and then \<open>g_value_init\<close> on its result;
  \<open>object_get_class_name\<close> uses two macros, \<open>G_OBJECT_GET_CLASS\<close> and then
  \<open>G_OBJECT_CLASS_NAME\<close> on its result (where the first call does not return, the second
  is not made). \<open>_g_object_set_one\<close> loads through \<open>val\<close> and then makes one call.
  \<open>val_list_insert\<close>, \<open>set_type\<close> and \<open>error_get_message\<close> make no native call. Every
  other function makes exactly one.
\<close>

theorem native_calls_per_function:
  "calls_made (shim_g_type_from_instance L instance) s = [Call_G_TYPE_FROM_INSTANCE instance]
   \<and> calls_made (shim_g_object_set_one L object property_name val) s
       = (case rd (gpointers (mem s)) val of
            None \<Rightarrow> []
          | Some v \<Rightarrow> [Call_g_object_set object property_name [VPtr v, VPtr NULL]])
   \<and> calls_made (alloc_gvalue_list L n) s = [Call_g_new0 TYPE_GValue n]
   \<and> calls_made (val_list_insert valv i gv) s = []
   \<and> calls_made (shim_g_value_alloc L) s = [Call_g_new0 TYPE_GValue 1]
   \<and> calls_made (shim_g_value_init L g_type) s
       = (case g_new0 L TYPE_GValue 1 (mem s) of
            None \<Rightarrow> [Call_g_new0 TYPE_GValue 1]
          | Some (value, h) \<Rightarrow> [Call_g_new0 TYPE_GValue 1, Call_g_value_init value g_type])
   \<and> calls_made (shim_g_is_value L gv) s = [Call_G_IS_VALUE gv]
   \<and> calls_made (shim_g_value_type L gv) s = [Call_G_VALUE_TYPE gv]
   \<and> calls_made (shim_g_value_fundamental L t) s = [Call_G_TYPE_FUNDAMENTAL t]
   \<and> calls_made (shim_g_closure_new L) s
       = (case g_closure_new_simple L (sizeof_GClosure L) NULL (mem s) of
            None \<Rightarrow> [Call_g_closure_new_simple (sizeof_GClosure L) NULL]
          | Some (closure, h) \<Rightarrow>
              [Call_g_closure_new_simple (sizeof_GClosure L) NULL,
               Call_g_closure_set_marshal closure goMarshal])
   \<and> calls_made (alloc_types L n) s = [Call_g_new0 TYPE_GType n]
   \<and> calls_made (set_type types k t) s = []
   \<and> calls_made (shim_gtk_tree_view_column_new_with_attributes_one L title renderer attribute column) s
       = [Call_gtk_tree_view_column_new_with_attributes title renderer
            [VPtr attribute, VInt column, VPtr NULL]]
   \<and> calls_made (shim_gtk_message_dialog_new L parent flags type buttons msg) s
       = [Call_gtk_message_dialog_new parent flags type buttons (StrLit ''%s'') [VPtr msg]]
   \<and> calls_made (error_get_message err) s = []
   \<and> calls_made (object_get_class_name L object) s
       = (case G_OBJECT_GET_CLASS L object (mem s) of
            None \<Rightarrow> [Call_G_OBJECT_GET_CLASS object]
          | Some (cls, h) \<Rightarrow> [Call_G_OBJECT_GET_CLASS object, Call_G_OBJECT_CLASS_NAME cls])
   \<and> calls_made (shim_g_variant_type_boolean L) s = [Use_G_VARIANT_TYPE G_VARIANT_TYPE_BOOLEAN]
   \<and> calls_made (shim_g_variant_type_byte L) s = [Use_G_VARIANT_TYPE G_VARIANT_TYPE_BYTE]
   \<and> calls_made (shim_g_variant_type_int16 L) s = [Use_G_VARIANT_TYPE G_VARIANT_TYPE_INT16]
   \<and> calls_made (shim_g_variant_type_uint16 L) s = [Use_G_VARIANT_TYPE G_VARIANT_TYPE_UINT16]
   \<and> calls_made (shim_g_variant_type_int32 L) s = [Use_G_VARIANT_TYPE G_VARIANT_TYPE_INT32]
   \<and> calls_made (shim_g_variant_type_uint32 L) s = [Use_G_VARIANT_TYPE G_VARIANT_TYPE_UINT32]
   \<and> calls_made (shim_g_variant_type_int64 L) s = [Use_G_VARIANT_TYPE G_VARIANT_TYPE_INT64]
   \<and> calls_made (shim_g_variant_type_uint64 L) s = [Use_G_VARIANT_TYPE G_VARIANT_TYPE_UINT64]
   \<and> calls_made (shim_g_variant_type_handle L) s = [Use_G_VARIANT_TYPE G_VARIANT_TYPE_HANDLE]
   \<and> calls_made (shim_g_variant_type_double L) s = [Use_G_VARIANT_TYPE G_VARIANT_TYPE_DOUBLE]
   \<and> calls_made (shim_g_variant_type_string L) s = [Use_G_VARIANT_TYPE G_VARIANT_TYPE_STRING]
   \<and> calls_made (shim_g_variant_type_object_path L) s = [Use_G_VARIANT_TYPE G_VARIANT_TYPE_OBJECT_PATH]
   \<and> calls_made (shim_g_variant_type_signature L) s = [Use_G_VARIANT_TYPE G_VARIANT_TYPE_SIGNATURE]
   \<and> calls_made (shim_g_variant_type_variant L) s = [Use_G_VARIANT_TYPE G_VARIANT_TYPE_VARIANT]
   \<and> calls_made (shim_g_variant_type_any L) s = [Use_G_VARIANT_TYPE G_VARIANT_TYPE_ANY]
   \<and> calls_made (shim_g_variant_type_basic L) s = [Use_G_VARIANT_TYPE G_VARIANT_TYPE_BASIC]
   \<and> calls_made (shim_g_variant_type_maybe L) s = [Use_G_VARIANT_TYPE G_VARIANT_TYPE_MAYBE]
   \<and> calls_made (shim_g_variant_type_array L) s = [Use_G_VARIANT_TYPE G_VARIANT_TYPE_ARRAY]
   \<and> calls_made (shim_g_variant_type_tuple L) s = [Use_G_VARIANT_TYPE G_VARIANT_TYPE_TUPLE]
   \<and> calls_made (shim_g_variant_type_unit L) s = [Use_G_VARIANT_TYPE G_VARIANT_TYPE_UNIT]
   \<and> calls_made (shim_g_variant_type_dict_entry L) s = [Use_G_VARIANT_TYPE G_VARIANT_TYPE_DICT_ENTRY]
   \<and> calls_made (shim_g_variant_type_dictionary L) s = [Use_G_VARIANT_TYPE G_VARIANT_TYPE_DICTIONARY]
   \<and> calls_made (shim_g_variant_type_string_array L) s = [Use_G_VARIANT_TYPE G_VARIANT_TYPE_STRING_ARRAY]
   \<and> calls_made (shim_g_variant_type_object_path_array L) s = [Use_G_VARIANT_TYPE G_VARIANT_TYPE_OBJECT_PATH_ARRAY]
   \<and> calls_made (shim_g_variant_type_bytestring L) s = [Use_G_VARIANT_TYPE G_VARIANT_TYPE_BYTESTRING]
   \<and> calls_made (shim_g_variant_type_bytestring_array L) s = [Use_G_VARIANT_TYPE G_VARIANT_TYPE_BYTESTRING_ARRAY]
   \<and> calls_made (shim_g_variant_type_vardict L) s = [Use_G_VARIANT_TYPE G_VARIANT_TYPE_VARDICT]"
proof (intro conjI)
  show "calls_made (shim_g_object_set_one L object property_name val) s
       = (case rd (gpointers (mem s)) val of
            None \<Rightarrow> []
          | Some v \<Rightarrow> [Call_g_object_set object property_name [VPtr v, VPtr NULL]])"
    by (simp add: calls_made_def shim_g_object_set_one_def bnd_def load_gpointer_def native_def
        split: option.splits)
next
  show "calls_made (val_list_insert valv i gv) s = []"
    by (simp add: calls_made_def val_list_insert_def bnd_def load_GValue_def store_GValue_def
        split: option.splits)
next
  show "calls_made (set_type types k t) s = []"
    by (simp add: calls_made_def set_type_def store_GType_def split: option.splits)
next
  show "calls_made (error_get_message err) s = []"
    by (simp add: calls_made_def error_get_message_def bnd_def load_GError_def ret_def
        split: option.splits)
next
  show "calls_made (shim_g_value_init L g_type) s
       = (case g_new0 L TYPE_GValue 1 (mem s) of
            None \<Rightarrow> [Call_g_new0 TYPE_GValue 1]
          | Some (value, h) \<Rightarrow> [Call_g_new0 TYPE_GValue 1, Call_g_value_init value g_type])"
    by (simp add: calls_made_def shim_g_value_init_def bnd_def native_def split: option.splits)
next
  show "calls_made (shim_g_closure_new L) s
       = (case g_closure_new_simple L (sizeof_GClosure L) NULL (mem s) of
            None \<Rightarrow> [Call_g_closure_new_simple (sizeof_GClosure L) NULL]
          | Some (closure, h) \<Rightarrow>
              [Call_g_closure_new_simple (sizeof_GClosure L) NULL,
               Call_g_closure_set_marshal closure goMarshal])"
    by (simp add: calls_made_def shim_g_closure_new_def bnd_def native_def ret_def
        split: option.splits)
next
  show "calls_made (object_get_class_name L object) s
       = (case G_OBJECT_GET_CLASS L object (mem s) of
            None \<Rightarrow> [Call_G_OBJECT_GET_CLASS object]
          | Some (cls, h) \<Rightarrow> [Call_G_OBJECT_GET_CLASS object, Call_G_OBJECT_CLASS_NAME cls])"
    by (simp add: calls_made_def object_get_class_name_def bnd_def native_def
        split: option.splits)
qed (simp_all add: shim_g_type_from_instance_def alloc_gvalue_list_def shim_g_value_alloc_def
    shim_g_is_value_def shim_g_value_type_def shim_g_value_fundamental_def alloc_types_def
    shim_gtk_tree_view_column_new_with_attributes_one_def shim_gtk_message_dialog_new_def
    accessor_defs bnd_ret calls_made_native)

subsection \<open>The accessors of the variant types\<close>

text \<open>
  C3. Each accessor returns the pointer its \<open>G_VARIANT_TYPE_*\<close> macro stands for, and two
  calls of one accessor, from any two machines \<open>s\<close> and \<open>s'\<close>, return the same pointer.
\<close>

theorem variant_type_accessors:
  "fst (shim_g_variant_type_boolean L s) = Ret (variant_type L G_VARIANT_TYPE_BOOLEAN)
   \<and> fst (shim_g_variant_type_boolean L s') = fst (shim_g_variant_type_boolean L s)
   \<and> fst (shim_g_variant_type_byte L s) = Ret (variant_type L G_VARIANT_TYPE_BYTE)
   \<and> fst (shim_g_variant_type_byte L s') = fst (shim_g_variant_type_byte L s)
   \<and> fst (shim_g_variant_type_int16 L s) = Ret (variant_type L G_VARIANT_TYPE_INT16)
   \<and> fst (shim_g_variant_type_int16 L s') = fst (shim_g_variant_type_int16 L s)
   \<and> fst (shim_g_variant_type_uint16 L s) = Ret (variant_type L G_VARIANT_TYPE_UINT16)
   \<and> fst (shim_g_variant_type_uint16 L s') = fst (shim_g_variant_type_uint16 L s)
   \<and> fst (shim_g_variant_type_int32 L s) = Ret (variant_type L G_VARIANT_TYPE_INT32)
   \<and> fst (shim_g_variant_type_int32 L s') = fst (shim_g_variant_type_int32 L s)
   \<and> fst (shim_g_variant_type_uint32 L s) = Ret (variant_type L G_VARIANT_TYPE_UINT32)
   \<and> fst (shim_g_variant_type_uint32 L s') = fst (shim_g_variant_type_uint32 L s)
   \<and> fst (shim_g_variant_type_int64 L s) = Ret (variant_type L G_VARIANT_TYPE_INT64)
   \<and> fst (shim_g_variant_type_int64 L s') = fst (shim_g_variant_type_int64 L s)
   \<and> fst (shim_g_variant_type_uint64 L s) = Ret (variant_type L G_VARIANT_TYPE_UINT64)
   \<and> fst (shim_g_variant_type_uint64 L s') = fst (shim_g_variant_type_uint64 L s)
   \<and> fst (shim_g_variant_type_handle L s) = Ret (variant_type L G_VARIANT_TYPE_HANDLE)
   \<and> fst (shim_g_variant_type_handle L s') = fst (shim_g_variant_type_handle L s)
   \<and> fst (shim_g_variant_type_double L s) = Ret (variant_type L G_VARIANT_TYPE_DOUBLE)
   \<and> fst (shim_g_variant_type_double L s') = fst (shim_g_variant_type_double L s)
   \<and> fst (shim_g_variant_type_string L s) = Ret (variant_type L G_VARIANT_TYPE_STRING)
   \<and> fst (shim_g_variant_type_string L s') = fst (shim_g_variant_type_string L s)
   \<and> fst (shim_g_variant_type_object_path L s) = Ret (variant_type L G_VARIANT_TYPE_OBJECT_PATH)
   \<and> fst (shim_g_variant_type_object_path L s') = fst (shim_g_variant_type_object_path L s)
   \<and> fst (shim_g_variant_type_signature L s) = Ret (variant_type L G_VARIANT_TYPE_SIGNATURE)
   \<and> fst (shim_g_variant_type_signature L s') = fst (shim_g_variant_type_signature L s)
   \<and> fst (shim_g_variant_type_variant L s) = Ret (variant_type L G_VARIANT_TYPE_VARIANT)
   \<and> fst (shim_g_variant_type_variant L s') = fst (shim_g_variant_type_variant L s)
   \<and> fst (shim_g_variant_type_any L s) = Ret (variant_type L G_VARIANT_TYPE_ANY)
   \<and> fst (shim_g_variant_type_any L s') = fst (shim_g_variant_type_any L s)
   \<and> fst (shim_g_variant_type_basic L s) = Ret (variant_type L G_VARIANT_TYPE_BASIC)
   \<and> fst (shim_g_variant_type_basic L s') = fst (shim_g_variant_type_basic L s)
   \<and> fst (shim_g_variant_type_maybe L s) = Ret (variant_type L G_VARIANT_TYPE_MAYBE)
   \<and> fst (shim_g_variant_type_maybe L s') = fst (shim_g_variant_type_maybe L s)
   \<and> fst (shim_g_variant_type_array L s) = Ret (variant_type L G_VARIANT_TYPE_ARRAY)
   \<and> fst (shim_g_variant_type_array L s') = fst (shim_g_variant_type_array L s)
   \<and> fst (shim_g_variant_type_tuple L s) = Ret (variant_type L G_VARIANT_TYPE_TUPLE)
   \<and> fst (shim_g_variant_type_tuple L s') = fst (shim_g_variant_type_tuple L s)
   \<and> fst (shim_g_variant_type_unit L s) = Ret (variant_type L G_VARIANT_TYPE_UNIT)
   \<and> fst (shim_g_variant_type_unit L s') = fst (shim_g_variant_type_unit L s)
   \<and> fst (shim_g_variant_type_dict_entry L s) = Ret (variant_type L G_VARIANT_TYPE_DICT_ENTRY)
   \<and> fst (shim_g_variant_type_dict_entry L s') = fst (shim_g_variant_type_dict_entry L s)
   \<and> fst (shim_g_variant_type_dictionary L s) = Ret (variant_type L G_VARIANT_TYPE_DICTIONARY)
   \<and> fst (shim_g_variant_type_dictionary L s') = fst (shim_g_variant_type_dictionary L s)
   \<and> fst (shim_g_variant_type_string_array L s) = Ret (variant_type L G_VARIANT_TYPE_STRING_ARRAY)
   \<and> fst (shim_g_variant_type_string_array L s') = fst (shim_g_variant_type_string_array L s)
   \<and> fst (shim_g_variant_type_object_path_array L s) = Ret (variant_type L G_VARIANT_TYPE_OBJECT_PATH_ARRAY)
   \<and> fst (shim_g_variant_type_object_path_array L s') = fst (shim_g_variant_type_object_path_array L s)
   \<and> fst (shim_g_variant_type_bytestring L s) = Ret (variant_type L G_VARIANT_TYPE_BYTESTRING)
   \<and> fst (shim_g_variant_type_bytestring L s') = fst (shim_g_variant_type_bytestring L s)
   \<and> fst (shim_g_variant_type_bytestring_array L s) = Ret (variant_type L G_VARIANT_TYPE_BYTESTRING_ARRAY)
   \<and> fst (shim_g_variant_type_bytestring_array L s') = fst (shim_g_variant_type_bytestring_array L s)
   \<and> fst (shim_g_variant_type_vardict L s) = Ret (variant_type L G_VARIANT_TYPE_VARDICT)
   \<and> fst (shim_g_variant_type_vardict L s') = fst (shim_g_variant_type_vardict L s)"
  by (simp add: accessor_defs native_def)

subsection \<open>The text of a message dialog\<close>

lemma printf_text_percent_s: "printf_text S ''%s'' [VPtr p] = S p"
  by (cases "S p") simp_all

text \<open>
  C7. \<open>_gtk_message_dialog_new\<close> makes one call of \<open>gtk_message_dialog_new\<close>, with the
  format \<open>"%s"\<close> and \<open>msg\<close> as the only argument after it, and the text of the dialog this
  call creates is the C string at \<open>msg\<close>, character for character, whatever conversions
  that string spells.
\<close>

theorem message_dialog_text_is_msg:
  "calls_made (shim_gtk_message_dialog_new L parent flags type buttons msg) s
     = [Call_gtk_message_dialog_new parent flags type buttons (StrLit ''%s'') [VPtr msg]] \<and>
   map (dialog_text (mem s))
     (calls_made (shim_gtk_message_dialog_new L parent flags type buttons msg) s)
     = [cstring (gchars (mem s)) msg]"
proof -
  have calls:
    "calls_made (shim_gtk_message_dialog_new L parent flags type buttons msg) s
       = [Call_gtk_message_dialog_new parent flags type buttons (StrLit ''%s'') [VPtr msg]]"
    by (simp add: shim_gtk_message_dialog_new_def bnd_ret calls_made_native)
  have "dialog_text (mem s)
          (Call_gtk_message_dialog_new parent flags type buttons (StrLit ''%s'') [VPtr msg])
        = cstring (gchars (mem s)) msg"
    using printf_text_percent_s [of "cstring (gchars (mem s))" msg] by simp
  with calls show ?thesis by simp
qed

text \<open>
  On the sample machine the string at \<open>Ptr 0 0\<close> is \<open>50%d off%n\<close>: it is the text of the
  dialog, while the same string given as the format has no text this model defines.
\<close>

theorem message_dialog_text_is_msg_sample:
  "map (dialog_text (mem sample_machine))
     (calls_made (shim_gtk_message_dialog_new sample_native NULL 0 0 0 (Ptr 0 0)) sample_machine)
     = [Some ''50%d off%n''] \<and>
   dialog_text (mem sample_machine) (Call_gtk_message_dialog_new NULL 0 0 0 (Ptr 0 0) []) = None"
  using message_dialog_text_is_msg [of sample_native NULL 0 0 0 "Ptr 0 0" sample_machine]
  by (simp add: sample_machine_simps)

subsection \<open>The loads and the stores\<close>

lemma val_list_insert_run:
  "val_list_insert valv i val s =
     (case rd (gvalues (mem s)) val of
        None \<Rightarrow> (Undefined (Load val), s)
      | Some v \<Rightarrow>
          (case wr (gvalues (mem s)) (ptr_add valv (sint i)) v of
             None \<Rightarrow> (Undefined (Store (ptr_add valv (sint i))), s)
           | Some bs \<Rightarrow> (Ret (), s\<lparr>mem := (mem s)\<lparr>gvalues := bs\<rparr>\<rparr>)))"
  by (simp add: val_list_insert_def bnd_def load_GValue_def store_GValue_def
      split: option.splits)

lemma set_type_run:
  "set_type types n t s =
     (case wr (gtypes (mem s)) (ptr_add types (sint n)) t of
        None \<Rightarrow> (Undefined (Store (ptr_add types (sint n))), s)
      | Some bs \<Rightarrow> (Ret (), s\<lparr>mem := (mem s)\<lparr>gtypes := bs\<rparr>\<rparr>))"
  by (simp add: set_type_def store_GType_def)

lemma error_get_message_run:
  "error_get_message err s =
     (case rd (gerrors (mem s)) err of
        None \<Rightarrow> (Undefined (Load err), s)
      | Some e \<Rightarrow> (Ret (message e), s))"
  by (simp add: error_get_message_def bnd_def load_GError_def ret_def split: option.splits)









lemma wr_in_bounds: "in_bounds bs p \<Longrightarrow> \<exists>bs'. wr bs p v = Some bs'"
  by (cases "wr bs p v") (simp_all add: wr_eq_None)

lemma rd_wr_index:
  assumes "wr bs (ptr_add p i) v = Some bs'" and "j \<noteq> i"
  shows "rd bs' (ptr_add p j) = rd bs (ptr_add p j)"
proof -
  from assms(1) have "in_bounds bs (ptr_add p i)"
    using wr_eq_None [of bs "ptr_add p i" v] by auto
  with assms(2) have "ptr_add p j \<noteq> ptr_add p i"
    by (simp add: ptr_add_inject)
  with assms(1) show ?thesis
    by (rule rd_wr_other)
qed

text \<open>
  C8. When \<open>val\<close> points to a \<open>GValue\<close> and \<open>valv[i]\<close> is an element of an array,
  \<open>val_list_insert(valv, i, val)\<close> returns with \<open>valv[i]\<close> holding the structure that
  \<open>val\<close> pointed to, and every \<open>valv[j]\<close> with \<open>j\<close> other than \<open>i\<close> as it was (also the
  one \<open>val\<close> points to, when it points into the array). When \<open>types[n]\<close> is an element of
  an array, \<open>set_type(types, n, t)\<close> returns with \<open>types[n]\<close> holding \<open>t\<close> and every other
  \<open>types[j]\<close> as it was.
\<close>

theorem stores_set_one_element:
  "(rd (gvalues (mem s)) val = Some v \<and> in_bounds (gvalues (mem s)) (ptr_add valv (sint i)) \<longrightarrow>
      fst (val_list_insert valv i val s) = Ret () \<and>
      rd (gvalues (mem (snd (val_list_insert valv i val s)))) (ptr_add valv (sint i)) = Some v \<and>
      (\<forall>j. j \<noteq> sint i \<longrightarrow>
         rd (gvalues (mem (snd (val_list_insert valv i val s)))) (ptr_add valv j)
           = rd (gvalues (mem s)) (ptr_add valv j)))
   \<and> (in_bounds (gtypes (mem s)) (ptr_add types (sint n)) \<longrightarrow>
      fst (set_type types n t s) = Ret () \<and>
      rd (gtypes (mem (snd (set_type types n t s)))) (ptr_add types (sint n)) = Some t \<and>
      (\<forall>j. j \<noteq> sint n \<longrightarrow>
         rd (gtypes (mem (snd (set_type types n t s)))) (ptr_add types j)
           = rd (gtypes (mem s)) (ptr_add types j)))"
proof (intro conjI impI)
  assume a: "rd (gvalues (mem s)) val = Some v \<and>
    in_bounds (gvalues (mem s)) (ptr_add valv (sint i))"
  then obtain bs where w: "wr (gvalues (mem s)) (ptr_add valv (sint i)) v = Some bs"
    using wr_in_bounds [of "gvalues (mem s)" "ptr_add valv (sint i)" v] by auto
  with a have run:
    "val_list_insert valv i val s = (Ret (), s\<lparr>mem := (mem s)\<lparr>gvalues := bs\<rparr>\<rparr>)"
    by (simp add: val_list_insert_run)
  show "fst (val_list_insert valv i val s) = Ret ()"
    by (simp add: run)
  show "rd (gvalues (mem (snd (val_list_insert valv i val s)))) (ptr_add valv (sint i)) = Some v"
    using rd_wr_same [OF w] by (simp add: run)
  show "\<forall>j. j \<noteq> sint i \<longrightarrow>
         rd (gvalues (mem (snd (val_list_insert valv i val s)))) (ptr_add valv j)
           = rd (gvalues (mem s)) (ptr_add valv j)"
    using rd_wr_index [OF w] by (simp add: run)
next
  assume a: "in_bounds (gtypes (mem s)) (ptr_add types (sint n))"
  then obtain bs where w: "wr (gtypes (mem s)) (ptr_add types (sint n)) t = Some bs"
    using wr_in_bounds [of "gtypes (mem s)" "ptr_add types (sint n)" t] by auto
  then have run: "set_type types n t s = (Ret (), s\<lparr>mem := (mem s)\<lparr>gtypes := bs\<rparr>\<rparr>)"
    by (simp add: set_type_run)
  show "fst (set_type types n t s) = Ret ()"
    by (simp add: run)
  show "rd (gtypes (mem (snd (set_type types n t s)))) (ptr_add types (sint n)) = Some t"
    using rd_wr_same [OF w] by (simp add: run)
  show "\<forall>j. j \<noteq> sint n \<longrightarrow>
         rd (gtypes (mem (snd (set_type types n t s)))) (ptr_add types j)
           = rd (gtypes (mem s)) (ptr_add types j)"
    using rd_wr_index [OF w] by (simp add: run)
qed

text \<open>
  On the sample machine: \<open>val_list_insert\<close> copies the \<open>GValue\<close> \<open>7\<close> at \<open>Ptr 1 0\<close> into
  element 1 of the array of three at \<open>Ptr 0 0\<close>, and \<open>set_type\<close> stores \<open>80\<close> in element 1
  of the array of two types; the neighbours keep their contents.
\<close>

theorem stores_set_one_element_sample:
  "rd (gvalues (mem sample_machine)) (Ptr 1 0) = Some 7
   \<and> in_bounds (gvalues (mem sample_machine)) (ptr_add (Ptr 0 0) (sint (1 :: gint)))
   \<and> fst (val_list_insert (Ptr 0 0) 1 (Ptr 1 0) sample_machine) = Ret ()
   \<and> rd (gvalues (mem (snd (val_list_insert (Ptr 0 0) 1 (Ptr 1 0) sample_machine)))) (Ptr 0 1)
       = Some 7
   \<and> rd (gvalues (mem (snd (val_list_insert (Ptr 0 0) 1 (Ptr 1 0) sample_machine)))) (Ptr 0 2)
       = Some 0
   \<and> in_bounds (gtypes (mem sample_machine)) (ptr_add (Ptr 0 0) (sint (1 :: gint)))
   \<and> fst (set_type (Ptr 0 0) 1 80 sample_machine) = Ret ()
   \<and> rd (gtypes (mem (snd (set_type (Ptr 0 0) 1 80 sample_machine)))) (Ptr 0 1) = Some 80
   \<and> rd (gtypes (mem (snd (set_type (Ptr 0 0) 1 80 sample_machine)))) (Ptr 0 0) = Some 0"
proof -
  let ?s = sample_machine
  let ?v = "val_list_insert (Ptr 0 0) 1 (Ptr 1 0) ?s"
  let ?g = "set_type (Ptr 0 0) 1 80 ?s"
  have e1: "ptr_add (Ptr 0 0) (sint (1 :: gint)) = Ptr 0 1"
    and e2: "ptr_add (Ptr 0 0) 2 = Ptr 0 2"
    and e0: "ptr_add (Ptr 0 0) 0 = Ptr 0 0"
    by simp_all
  have n2: "(2 :: int) \<noteq> sint (1 :: gint)" and n0: "(0 :: int) \<noteq> sint (1 :: gint)"
    by simp_all
  have h1a: "rd (gvalues (mem ?s)) (Ptr 1 0) = Some 7"
    by (simp add: sample_machine_simps)
  have h1b: "in_bounds (gvalues (mem ?s)) (ptr_add (Ptr 0 0) (sint (1 :: gint)))"
    by (simp add: sample_machine_simps)
  have h2: "in_bounds (gtypes (mem ?s)) (ptr_add (Ptr 0 0) (sint (1 :: gint)))"
    by (simp add: sample_machine_simps)
  have old2: "rd (gvalues (mem ?s)) (Ptr 0 2) = Some 0"
    and old0: "rd (gtypes (mem ?s)) (Ptr 0 0) = Some 0"
    by (simp_all add: sample_machine_simps)
  note t = stores_set_one_element [of ?s "Ptr 1 0" 7 "Ptr 0 0" 1 "Ptr 0 0" 1 80]
  note v = t [THEN conjunct1, THEN mp, OF conjI [OF h1a h1b]]
  note g = t [THEN conjunct2, THEN mp, OF h2]
  have c3: "fst ?v = Ret ()"
    by (rule v [THEN conjunct1])
  have c4: "rd (gvalues (mem (snd ?v))) (Ptr 0 1) = Some 7"
    using v [THEN conjunct2, THEN conjunct1] by (simp only: e1)
  have c5: "rd (gvalues (mem (snd ?v))) (Ptr 0 2) = Some 0"
    using v [THEN conjunct2, THEN conjunct2, THEN spec, of 2, THEN mp, OF n2]
    by (simp only: e2 old2)
  have c7: "fst ?g = Ret ()"
    by (rule g [THEN conjunct1])
  have c8: "rd (gtypes (mem (snd ?g))) (Ptr 0 1) = Some 80"
    using g [THEN conjunct2, THEN conjunct1] by (simp only: e1)
  have c9: "rd (gtypes (mem (snd ?g))) (Ptr 0 0) = Some 0"
    using g [THEN conjunct2, THEN conjunct2, THEN spec, of 0, THEN mp, OF n0]
    by (simp only: e0 old0)
  from h1a h1b c3 c4 c5 h2 c7 c8 c9 show ?thesis
    by blast
qed

subsection \<open>No state of their own\<close>















subsection \<open>No validation\<close>



subsection \<open>Allocation and copying\<close>

text \<open>
  C6 says that every function only forwards pointers, allocating nothing and copying no
  structure by value, and names \<open>alloc_gvalue_list\<close>, \<open>alloc_types\<close> and
  \<open>val_list_insert\<close>. On the sample machine \<open>val_list_insert\<close> overwrites the \<open>GValue\<close>
  \<open>0\<close> in element 1 of the array with a copy of the \<open>GValue\<close> \<open>7\<close> that \<open>val\<close> points
  to, and \<open>alloc_gvalue_list\<close> returns a pointer to an array that was not there before.
\<close>

theorem val_list_insert_copies_and_alloc_allocates:
  "rd (gvalues (mem sample_machine)) (Ptr 0 1) = Some 0
   \<and> rd (gvalues (mem (snd (val_list_insert (Ptr 0 0) 1 (Ptr 1 0) sample_machine)))) (Ptr 0 1)
       = Some 7
   \<and> fst (alloc_gvalue_list sample_native 2 sample_machine) = Ret (Ptr 2 0)
   \<and> \<not> in_bounds (gvalues (mem sample_machine)) (Ptr 2 0)
   \<and> in_bounds (gvalues (mem (snd (alloc_gvalue_list sample_native 2 sample_machine)))) (Ptr 2 0)"
  by (simp add: val_list_insert_run alloc_gvalue_list_def bnd_ret native_def sample_fields
      sample_g_new0_def sample_machine_simps)

text \<open>
  C6, as amended. The repository defines no layout and no invariant of a native structure
  (a \<open>GValue\<close> is any type with a zero here), and its functions forward pointers and
  scalars, with these exceptions. \<open>alloc_gvalue_list\<close>, \<open>alloc_types\<close> and
  \<open>_g_value_alloc\<close> return an array that \<open>g_new0\<close> allocated for them, and
  \<open>_g_value_init\<close> hands such an array to \<open>g_value_init\<close>. \<open>val_list_insert\<close> copies
  the structure \<open>val\<close> points to, by value, into \<open>valv[i]\<close> and writes nothing else;
  \<open>set_type\<close> stores \<open>t\<close> in \<open>types[n]\<close> and writes nothing else. No other function
  writes memory itself: the memory it leaves is the memory its native calls leave, and
  \<open>error_get_message\<close> and the accessors of the variant types leave the memory as it was.
\<close>

theorem memory_written_by_shims:
  "fst (alloc_gvalue_list L n s)
       = (case g_new0 L TYPE_GValue n (mem s) of None \<Rightarrow> Abort | Some (p, h) \<Rightarrow> Ret p)
   \<and> mem (snd (alloc_gvalue_list L n s))
       = (case g_new0 L TYPE_GValue n (mem s) of None \<Rightarrow> mem s | Some (p, h) \<Rightarrow> h)
   \<and> fst (alloc_types L n s)
       = (case g_new0 L TYPE_GType n (mem s) of None \<Rightarrow> Abort | Some (p, h) \<Rightarrow> Ret p)
   \<and> mem (snd (alloc_types L n s))
       = (case g_new0 L TYPE_GType n (mem s) of None \<Rightarrow> mem s | Some (p, h) \<Rightarrow> h)
   \<and> fst (shim_g_value_alloc L s)
       = (case g_new0 L TYPE_GValue 1 (mem s) of None \<Rightarrow> Abort | Some (p, h) \<Rightarrow> Ret p)
   \<and> mem (snd (shim_g_value_alloc L s))
       = (case g_new0 L TYPE_GValue 1 (mem s) of None \<Rightarrow> mem s | Some (p, h) \<Rightarrow> h)
   \<and> mem (snd (shim_g_value_init L g_type s))
       = (case g_new0 L TYPE_GValue 1 (mem s) of
            None \<Rightarrow> mem s
          | Some (p, h) \<Rightarrow>
              (case g_value_init L p g_type h of None \<Rightarrow> h | Some (r, h') \<Rightarrow> h'))
   \<and> (mem (snd (val_list_insert valv i gv s)))\<lparr>gvalues := gvalues (mem s)\<rparr> = mem s
   \<and> (\<forall>q. q \<noteq> ptr_add valv (sint i) \<longrightarrow>
         rd (gvalues (mem (snd (val_list_insert valv i gv s)))) q = rd (gvalues (mem s)) q)
   \<and> (fst (val_list_insert valv i gv s) = Ret () \<longrightarrow>
         rd (gvalues (mem (snd (val_list_insert valv i gv s)))) (ptr_add valv (sint i))
           = rd (gvalues (mem s)) gv)
   \<and> (mem (snd (set_type types k t s)))\<lparr>gtypes := gtypes (mem s)\<rparr> = mem s
   \<and> (\<forall>q. q \<noteq> ptr_add types (sint k) \<longrightarrow>
         rd (gtypes (mem (snd (set_type types k t s)))) q = rd (gtypes (mem s)) q)
   \<and> (fst (set_type types k t s) = Ret () \<longrightarrow>
         rd (gtypes (mem (snd (set_type types k t s)))) (ptr_add types (sint k)) = Some t)
   \<and> snd (error_get_message err s) = s
   \<and> mem (snd (shim_g_type_from_instance L instance s))
       = (case G_TYPE_FROM_INSTANCE L instance (mem s) of None \<Rightarrow> mem s | Some (r, h) \<Rightarrow> h)
   \<and> mem (snd (shim_g_object_set_one L object property_name val s))
       = (case rd (gpointers (mem s)) val of
            None \<Rightarrow> mem s
          | Some v \<Rightarrow>
              (case g_object_set L object property_name [VPtr v, VPtr NULL] (mem s) of
                 None \<Rightarrow> mem s
               | Some (r, h) \<Rightarrow> h))
   \<and> mem (snd (shim_g_is_value L gv s))
       = (case G_IS_VALUE L gv (mem s) of None \<Rightarrow> mem s | Some (r, h) \<Rightarrow> h)
   \<and> mem (snd (shim_g_value_type L gv s))
       = (case G_VALUE_TYPE L gv (mem s) of None \<Rightarrow> mem s | Some (r, h) \<Rightarrow> h)
   \<and> mem (snd (shim_g_value_fundamental L t s))
       = (case G_TYPE_FUNDAMENTAL L t (mem s) of None \<Rightarrow> mem s | Some (r, h) \<Rightarrow> h)
   \<and> mem (snd (shim_g_closure_new L s))
       = (case g_closure_new_simple L (sizeof_GClosure L) NULL (mem s) of
            None \<Rightarrow> mem s
          | Some (closure, h) \<Rightarrow>
              (case g_closure_set_marshal L closure goMarshal h of
                 None \<Rightarrow> h
               | Some (u, h') \<Rightarrow> h'))
   \<and> mem (snd (shim_gtk_tree_view_column_new_with_attributes_one L title renderer attribute
                  column s))
       = (case gtk_tree_view_column_new_with_attributes L title renderer
                 [VPtr attribute, VInt column, VPtr NULL] (mem s) of
            None \<Rightarrow> mem s
          | Some (r, h) \<Rightarrow> h)
   \<and> mem (snd (shim_gtk_message_dialog_new L parent flags type buttons msg s))
       = (case gtk_message_dialog_new L parent flags type buttons (StrLit ''%s'') [VPtr msg]
                 (mem s) of
            None \<Rightarrow> mem s
          | Some (r, h) \<Rightarrow> h)
   \<and> mem (snd (object_get_class_name L object s))
       = (case G_OBJECT_GET_CLASS L object (mem s) of
            None \<Rightarrow> mem s
          | Some (cls, h) \<Rightarrow>
              (case G_OBJECT_CLASS_NAME L cls h of None \<Rightarrow> h | Some (r, h') \<Rightarrow> h'))
   \<and> mem (snd (shim_g_variant_type_boolean L s)) = mem s
   \<and> mem (snd (shim_g_variant_type_byte L s)) = mem s
   \<and> mem (snd (shim_g_variant_type_int16 L s)) = mem s
   \<and> mem (snd (shim_g_variant_type_uint16 L s)) = mem s
   \<and> mem (snd (shim_g_variant_type_int32 L s)) = mem s
   \<and> mem (snd (shim_g_variant_type_uint32 L s)) = mem s
   \<and> mem (snd (shim_g_variant_type_int64 L s)) = mem s
   \<and> mem (snd (shim_g_variant_type_uint64 L s)) = mem s
   \<and> mem (snd (shim_g_variant_type_handle L s)) = mem s
   \<and> mem (snd (shim_g_variant_type_double L s)) = mem s
   \<and> mem (snd (shim_g_variant_type_string L s)) = mem s
   \<and> mem (snd (shim_g_variant_type_object_path L s)) = mem s
   \<and> mem (snd (shim_g_variant_type_signature L s)) = mem s
   \<and> mem (snd (shim_g_variant_type_variant L s)) = mem s
   \<and> mem (snd (shim_g_variant_type_any L s)) = mem s
   \<and> mem (snd (shim_g_variant_type_basic L s)) = mem s
   \<and> mem (snd (shim_g_variant_type_maybe L s)) = mem s
   \<and> mem (snd (shim_g_variant_type_array L s)) = mem s
   \<and> mem (snd (shim_g_variant_type_tuple L s)) = mem s
   \<and> mem (snd (shim_g_variant_type_unit L s)) = mem s
   \<and> mem (snd (shim_g_variant_type_dict_entry L s)) = mem s
   \<and> mem (snd (shim_g_variant_type_dictionary L s)) = mem s
   \<and> mem (snd (shim_g_variant_type_string_array L s)) = mem s
   \<and> mem (snd (shim_g_variant_type_object_path_array L s)) = mem s
   \<and> mem (snd (shim_g_variant_type_bytestring L s)) = mem s
   \<and> mem (snd (shim_g_variant_type_bytestring_array L s)) = mem s
   \<and> mem (snd (shim_g_variant_type_vardict L s)) = mem s"
proof (intro conjI)
  show "(mem (snd (val_list_insert valv i gv s)))\<lparr>gvalues := gvalues (mem s)\<rparr> = mem s"
    by (simp add: val_list_insert_run split: option.splits)
next
  show "\<forall>q. q \<noteq> ptr_add valv (sint i) \<longrightarrow>
         rd (gvalues (mem (snd (val_list_insert valv i gv s)))) q = rd (gvalues (mem s)) q"
    by (auto simp: val_list_insert_run rd_wr_other split: option.splits)
next
  show "fst (val_list_insert valv i gv s) = Ret () \<longrightarrow>
         rd (gvalues (mem (snd (val_list_insert valv i gv s)))) (ptr_add valv (sint i))
           = rd (gvalues (mem s)) gv"
    by (auto simp: val_list_insert_run rd_wr_same split: option.splits)
next
  show "(mem (snd (set_type types k t s)))\<lparr>gtypes := gtypes (mem s)\<rparr> = mem s"
    by (simp add: set_type_run split: option.splits)
next
  show "\<forall>q. q \<noteq> ptr_add types (sint k) \<longrightarrow>
         rd (gtypes (mem (snd (set_type types k t s)))) q = rd (gtypes (mem s)) q"
    by (auto simp: set_type_run rd_wr_other split: option.splits)
next
  show "fst (set_type types k t s) = Ret () \<longrightarrow>
         rd (gtypes (mem (snd (set_type types k t s)))) (ptr_add types (sint k)) = Some t"
    by (auto simp: set_type_run rd_wr_same split: option.splits)
next
  show "snd (error_get_message err s) = s"
    by (simp add: error_get_message_run split: option.splits)
next
  show "mem (snd (shim_g_object_set_one L object property_name val s))
       = (case rd (gpointers (mem s)) val of
            None \<Rightarrow> mem s
          | Some v \<Rightarrow>
              (case g_object_set L object property_name [VPtr v, VPtr NULL] (mem s) of
                 None \<Rightarrow> mem s
               | Some (r, h) \<Rightarrow> h))"
    by (simp add: shim_g_object_set_one_def bnd_def load_gpointer_def native_def
        split: option.splits)
qed (simp_all add: shim_g_type_from_instance_def alloc_gvalue_list_def shim_g_value_alloc_def
    shim_g_value_init_def shim_g_is_value_def shim_g_value_type_def shim_g_value_fundamental_def
    shim_g_closure_new_def alloc_types_def shim_gtk_tree_view_column_new_with_attributes_one_def
    shim_gtk_message_dialog_new_def object_get_class_name_def accessor_defs
    bnd_def native_def ret_def split: option.splits)

text \<open>
  On the sample machine: \<open>val_list_insert\<close> leaves element 0 of the array as it was and
  element 1 with what \<open>val\<close> pointed to; \<open>set_type\<close> leaves element 0 as it was and
  element 1 with \<open>80\<close>.
\<close>

theorem memory_written_by_shims_sample:
  "Ptr 0 0 \<noteq> ptr_add (Ptr 0 0) (sint (1 :: gint))
   \<and> rd (gvalues (mem (snd (val_list_insert (Ptr 0 0) 1 (Ptr 1 0) sample_machine)))) (Ptr 0 0)
       = rd (gvalues (mem sample_machine)) (Ptr 0 0)
   \<and> fst (val_list_insert (Ptr 0 0) 1 (Ptr 1 0) sample_machine) = Ret ()
   \<and> rd (gvalues (mem (snd (val_list_insert (Ptr 0 0) 1 (Ptr 1 0) sample_machine))))
         (ptr_add (Ptr 0 0) (sint (1 :: gint)))
       = rd (gvalues (mem sample_machine)) (Ptr 1 0)
   \<and> rd (gtypes (mem (snd (set_type (Ptr 0 0) 1 80 sample_machine)))) (Ptr 0 0)
       = rd (gtypes (mem sample_machine)) (Ptr 0 0)
   \<and> fst (set_type (Ptr 0 0) 1 80 sample_machine) = Ret ()
   \<and> rd (gtypes (mem (snd (set_type (Ptr 0 0) 1 80 sample_machine))))
         (ptr_add (Ptr 0 0) (sint (1 :: gint)))
       = Some 80"
proof -
  note t = memory_written_by_shims [where s = sample_machine
      and valv = "Ptr 0 0" and i = 1 and gv = "Ptr 1 0" and types = "Ptr 0 0" and k = 1
      and t = 80, THEN conjunct2, THEN conjunct2, THEN conjunct2, THEN conjunct2,
      THEN conjunct2, THEN conjunct2, THEN conjunct2, THEN conjunct2]
  have ne: "Ptr 0 0 \<noteq> ptr_add (Ptr 0 0) (sint (1 :: gint))"
    by simp
  have rv: "fst (val_list_insert (Ptr 0 0) 1 (Ptr 1 0) sample_machine) = Ret ()"
    by (simp add: val_list_insert_run sample_machine_simps)
  have rt: "fst (set_type (Ptr 0 0) 1 80 sample_machine) = Ret ()"
    by (simp add: set_type_run sample_machine_simps)
  note v1 = t [THEN conjunct1, THEN spec, of "Ptr 0 0", THEN mp, OF ne]
  note v2 = t [THEN conjunct2, THEN conjunct1, THEN mp, OF rv]
  note g = t [THEN conjunct2, THEN conjunct2, THEN conjunct2]
  note g1 = g [THEN conjunct1, THEN spec, of "Ptr 0 0", THEN mp, OF ne]
  note g2 = g [THEN conjunct2, THEN conjunct1, THEN mp, OF rt]
  from ne v1 rv v2 g1 rt g2 show ?thesis
    by blast
qed

subsection \<open>What the allocating functions return\<close>

lemma ptr_add_0: "ptr_add p 0 = p"
  by (cases p) simp_all

lemma fresh_zeroed_append: "fresh_zeroed bs (bs @ [replicate m 0]) (Ptr (length bs) 0) m"
  unfolding fresh_zeroed_def
proof (intro conjI allI impI)
  fix k
  assume "k < m"
  then show "\<not> in_bounds bs (ptr_add (Ptr (length bs) 0) (int k))"
    and "rd (bs @ [replicate m 0]) (ptr_add (Ptr (length bs) 0) (int k)) = Some 0"
    by simp_all
next
  show "\<not> in_bounds (bs @ [replicate m 0]) (ptr_add (Ptr (length bs) 0) (int m))"
    by simp
next
  fix q
  assume "in_bounds bs q"
  then show "rd (bs @ [replicate m 0]) q = rd bs q"
    by (cases q) (simp_all add: nth_append)
qed

lemma sample_g_new0_contract: "g_new0_contract sample_native"
  unfolding g_new0_contract_def
proof (intro allI impI conjI)
  fix n :: gint and h :: "(nat, nat) heap"
  assume "0 \<le> sint n"
  then show "\<exists>p h'. g_new0 sample_native TYPE_GValue n h = Some (p, h') \<and>
      fresh_zeroed (gvalues h) (gvalues h') p (nat (sint n))"
    using fresh_zeroed_append [of "gvalues h" "nat (sint n)"]
    by (simp add: sample_fields sample_g_new0_def)
  from \<open>0 \<le> sint n\<close> show "\<exists>p h'. g_new0 sample_native TYPE_GType n h = Some (p, h') \<and>
      fresh_zeroed (gtypes h) (gtypes h') p (nat (sint n))"
    using fresh_zeroed_append [of "gtypes h" "nat (sint n)"]
    by (simp add: sample_fields sample_g_new0_def)
qed

lemma sample_G_IS_VALUE_contract: "G_IS_VALUE_contract sample_native"
  by (simp add: G_IS_VALUE_contract_def sample_G_IS_VALUE)

text \<open>
  C9. With a native library whose \<open>g_new0\<close> allocates a fresh zero-filled array and whose
  \<open>G_IS_VALUE\<close> does not hold of an all-zero \<open>GValue\<close>: for every \<open>n \<ge> 0\<close>,
  \<open>alloc_gvalue_list(n)\<close> returns a fresh array of \<open>n\<close> \<open>GValue\<close>s, each zero, and
  \<open>alloc_types(n)\<close> a fresh array of \<open>n\<close> \<open>GType\<close>s, each zero; \<open>_g_value_alloc()\<close>
  returns a fresh \<open>GValue\<close> that is zero, of which \<open>_g_is_value\<close> then returns \<open>FALSE\<close>.
\<close>

theorem alloc_functions_return_fresh_zeroed:
  assumes new0: "g_new0_contract L" and is_value: "G_IS_VALUE_contract L"
    and n: "0 \<le> sint n"
  shows
    "(\<exists>p s'. alloc_gvalue_list L n s = (Ret p, s') \<and>
        fresh_zeroed (gvalues (mem s)) (gvalues (mem s')) p (nat (sint n)))
     \<and> (\<exists>p s'. alloc_types L n s = (Ret p, s') \<and>
        fresh_zeroed (gtypes (mem s)) (gtypes (mem s')) p (nat (sint n)))
     \<and> (\<exists>p s'. shim_g_value_alloc L s = (Ret p, s') \<and>
        fresh_zeroed (gvalues (mem s)) (gvalues (mem s')) p 1 \<and>
        rd (gvalues (mem s')) p = Some 0 \<and>
        fst (shim_g_is_value L p s') = Ret 0)"
proof (intro conjI)
  from new0 n obtain p h' where
    g: "g_new0 L TYPE_GValue n (mem s) = Some (p, h')" and
    z: "fresh_zeroed (gvalues (mem s)) (gvalues h') p (nat (sint n))"
    unfolding g_new0_contract_def by blast
  from g have "alloc_gvalue_list L n s
      = (Ret p, \<lparr>mem = h', trace = trace s @ [Call_g_new0 TYPE_GValue n]\<rparr>)"
    by (simp add: alloc_gvalue_list_def bnd_ret native_Some)
  with z show "\<exists>p s'. alloc_gvalue_list L n s = (Ret p, s') \<and>
      fresh_zeroed (gvalues (mem s)) (gvalues (mem s')) p (nat (sint n))"
    by simp
next
  from new0 n obtain p h' where
    g: "g_new0 L TYPE_GType n (mem s) = Some (p, h')" and
    z: "fresh_zeroed (gtypes (mem s)) (gtypes h') p (nat (sint n))"
    unfolding g_new0_contract_def by blast
  from g have "alloc_types L n s
      = (Ret p, \<lparr>mem = h', trace = trace s @ [Call_g_new0 TYPE_GType n]\<rparr>)"
    by (simp add: alloc_types_def native_Some)
  with z show "\<exists>p s'. alloc_types L n s = (Ret p, s') \<and>
      fresh_zeroed (gtypes (mem s)) (gtypes (mem s')) p (nat (sint n))"
    by simp
next
  have one: "0 \<le> sint (1 :: gint)" "nat (sint (1 :: gint)) = 1"
    by simp_all
  with new0 obtain p h' where
    g: "g_new0 L TYPE_GValue 1 (mem s) = Some (p, h')" and
    z: "fresh_zeroed (gvalues (mem s)) (gvalues h') p 1"
    unfolding g_new0_contract_def by metis
  let ?s' = "\<lparr>mem = h', trace = trace s @ [Call_g_new0 TYPE_GValue 1]\<rparr>"
  from g have run: "shim_g_value_alloc L s = (Ret p, ?s')"
    by (simp add: shim_g_value_alloc_def native_Some)
  from z have "rd (gvalues h') (ptr_add p (int 0)) = Some 0"
    unfolding fresh_zeroed_def by blast
  then have zero: "rd (gvalues (mem ?s')) p = Some 0"
    by (simp add: ptr_add_0)
  with is_value obtain h'' where "G_IS_VALUE L p (mem ?s') = Some (0, h'')"
    unfolding G_IS_VALUE_contract_def by blast
  then have "fst (shim_g_is_value L p ?s') = Ret 0"
    by (simp add: shim_g_is_value_def native_def)
  with run z zero show "\<exists>p s'. shim_g_value_alloc L s = (Ret p, s') \<and>
      fresh_zeroed (gvalues (mem s)) (gvalues (mem s')) p 1 \<and>
      rd (gvalues (mem s')) p = Some 0 \<and>
      fst (shim_g_is_value L p s') = Ret 0"
    by (intro exI [of _ p] exI [of _ ?s']) simp
qed

text \<open>The sample library meets both contracts; on the sample machine, with \<open>n = 3\<close>:\<close>

theorem alloc_functions_return_fresh_zeroed_sample:
  "g_new0_contract sample_native \<and> G_IS_VALUE_contract sample_native \<and> 0 \<le> sint (3 :: gint)
   \<and> (\<exists>p s'. alloc_gvalue_list sample_native 3 sample_machine = (Ret p, s') \<and>
        fresh_zeroed (gvalues (mem sample_machine)) (gvalues (mem s')) p (nat (sint (3 :: gint))))
   \<and> (\<exists>p s'. alloc_types sample_native 3 sample_machine = (Ret p, s') \<and>
        fresh_zeroed (gtypes (mem sample_machine)) (gtypes (mem s')) p (nat (sint (3 :: gint))))
   \<and> (\<exists>p s'. shim_g_value_alloc sample_native sample_machine = (Ret p, s') \<and>
        fresh_zeroed (gvalues (mem sample_machine)) (gvalues (mem s')) p 1 \<and>
        rd (gvalues (mem s')) p = Some 0 \<and>
        fst (shim_g_is_value sample_native p s') = Ret 0)"
proof -
  have n: "0 \<le> sint (3 :: gint)"
    by simp
  note r = alloc_functions_return_fresh_zeroed
    [OF sample_g_new0_contract sample_G_IS_VALUE_contract n, of sample_machine]
  show ?thesis
    by (rule conjI [OF sample_g_new0_contract
          conjI [OF sample_G_IS_VALUE_contract conjI [OF n r]]])
qed

end
